theory Spec2Isabelle
  imports Complex_Main "HOL-Library.Multiset" "HOL-Library.Char_ord" "HOL-Library.List_Lexorder"
    "HOL-Library.Monad_Syntax"
begin

section \<open>Strings, paths and Python built-ins\<close>

text \<open>
  File names and text lines are \<^typ>\<open>string\<close>. A failing Python operation (an
  \<^verbatim>\<open>IndexError\<close>, \<^verbatim>\<open>KeyError\<close> or \<^verbatim>\<open>ValueError\<close>, none of which the script
  catches) is the value \<open>None\<close>: the run stops there.
\<close>

definition startswith :: "string \<Rightarrow> string \<Rightarrow> bool" where
  "startswith s p = (take (length p) s = p)"

definition endswith :: "string \<Rightarrow> string \<Rightarrow> bool" where
  "endswith s p = (length p \<le> length s \<and> drop (length s - length p) s = p)"

text \<open>The substring test \<^verbatim>\<open>p in s\<close>.\<close>

fun contains :: "string \<Rightarrow> string \<Rightarrow> bool" where
  "contains [] p = (p = [])"
| "contains (c # cs) p = (startswith (c # cs) p \<or> contains cs p)"

text \<open>
  \<^verbatim>\<open>s.split(sep)\<close> for a non-empty separator: the pieces between the successive
  left-to-right occurrences of \<open>sep\<close>. (Python raises on an empty separator; every
  separator of the script is a non-empty literal.)
\<close>

function split_from :: "string \<Rightarrow> string \<Rightarrow> string \<Rightarrow> string list" where
  "split_from sep cur [] = [rev cur]"
| "split_from sep cur (c # cs) =
     (if sep \<noteq> [] \<and> startswith (c # cs) sep
      then rev cur # split_from sep [] (drop (length sep) (c # cs))
      else split_from sep (c # cur) cs)"
  by pat_completeness auto
termination
  by (relation "measure (\<lambda>(sep, cur, s). length s)") auto

definition py_split :: "string \<Rightarrow> string \<Rightarrow> string list" where
  "py_split s sep = split_from sep [] s"

text \<open>\<^verbatim>\<open>s.split(sep)[0]\<close>; a split always has a first piece.\<close>

definition first_piece :: "string \<Rightarrow> string \<Rightarrow> string" where
  "first_piece s sep = (case py_split s sep of a # rest \<Rightarrow> a | [] \<Rightarrow> [])"

text \<open>
  The characters \<^verbatim>\<open>str.isspace\<close> holds of, among the first 256 code points: the blank,
  tab to carriage return, the four separators 28 to 31, next line (133) and the no-break
  space (160).
\<close>

definition is_space :: "char \<Rightarrow> bool" where
  "is_space c =
     (c \<in> set [CHR '' '', CHR 0x09, CHR 0x0A, CHR 0x0B, CHR 0x0C, CHR 0x0D,
                CHR 0x1C, CHR 0x1D, CHR 0x1E, CHR 0x1F, CHR 0x85, CHR 0xA0])"

text \<open>\<^verbatim>\<open>s.rstrip()\<close> and \<^verbatim>\<open>s.strip()\<close> on whitespace.\<close>

definition rstrip :: "string \<Rightarrow> string" where
  "rstrip s = rev (dropWhile is_space (rev s))"

definition strip :: "string \<Rightarrow> string" where
  "strip s = dropWhile is_space (rstrip s)"

text \<open>\<^verbatim>\<open>xs[i]\<close> for a non-negative index: an \<^verbatim>\<open>IndexError\<close> out of range.\<close>

definition py_index :: "'a list \<Rightarrow> nat \<Rightarrow> 'a option" where
  "py_index xs i = (if i < length xs then Some (xs ! i) else None)"

text \<open>
  \<^verbatim>\<open>int(s)\<close> on a string: surrounding whitespace is dropped, then an optional sign and
  one or more decimal digits must remain. (Python also accepts single underscores between
  digits; the script only converts pieces of a name split at its underscores.)
\<close>

definition digit_val :: "char \<Rightarrow> nat option" where
  "digit_val c =
     (if CHR ''0'' \<le> c \<and> c \<le> CHR ''9''
      then Some (of_char c - of_char CHR ''0'') else None)"

definition digits_val :: "string \<Rightarrow> nat option" where
  "digits_val s =
     (case those (map digit_val s) of
        None \<Rightarrow> None
      | Some ds \<Rightarrow> if ds = [] then None else Some (fold (\<lambda>d acc. 10 * acc + d) ds 0))"

definition py_int :: "string \<Rightarrow> int option" where
  "py_int s =
     (case strip s of
        [] \<Rightarrow> None
      | c # cs \<Rightarrow>
          if c = CHR ''-'' then map_option (\<lambda>n. - int n) (digits_val cs)
          else if c = CHR ''+'' then map_option int (digits_val cs)
          else map_option int (digits_val (c # cs)))"

text \<open>
  \<^verbatim>\<open>os.path.splitext\<close> and \<^verbatim>\<open>os.path.basename\<close> on POSIX paths. \<open>rfind\<close> is
  \<^verbatim>\<open>str.rfind\<close> of one character, \<open>-1\<close> when it does not occur. The extension starts at
  the last dot of the last path component, unless only dots precede it there.
\<close>

definition rfind :: "string \<Rightarrow> char \<Rightarrow> int" where
  "rfind s c =
     (case filter (\<lambda>i. s ! i = c) (rev [0..<length s]) of
        [] \<Rightarrow> - 1
      | i # _ \<Rightarrow> int i)"

definition splitext :: "string \<Rightarrow> string \<times> string" where
  "splitext p =
     (let sepIndex = rfind p CHR ''/'';
          dotIndex = rfind p CHR ''.''
      in if dotIndex > sepIndex \<and>
            list_ex (\<lambda>i. p ! i \<noteq> CHR ''.'') [nat (sepIndex + 1)..<nat dotIndex]
         then (take (nat dotIndex) p, drop (nat dotIndex) p)
         else (p, []))"

definition basename :: "string \<Rightarrow> string" where
  "basename p = drop (nat (rfind p CHR ''/'' + 1)) p"

text \<open>\<^verbatim>\<open>os.path.join(a, b)\<close> for a relative \<open>b\<close> and an \<open>a\<close> that does not end in a slash.\<close>

definition path_join :: "string \<Rightarrow> string \<Rightarrow> string" where
  "path_join a b = a @ ''/'' @ b"

text \<open>
  \<^verbatim>\<open>Series.str.replace(".jpg", "")\<close>. pandas before 2.0 reads the pattern as a regular
  expression (the dot matches any character but a newline), pandas 2.0 and later as a literal;
  \<open>regex\<close> says which. Matches are replaced left to right without overlap.
\<close>

function replace_jpg :: "bool \<Rightarrow> string \<Rightarrow> string" where
  "replace_jpg regex [] = []"
| "replace_jpg regex (c # cs) =
     (if (if regex then c \<noteq> CHR 0x0A else c = CHR ''.'') \<and> startswith cs ''jpg''
      then replace_jpg regex (drop 3 cs)
      else c # replace_jpg regex cs)"
  by pat_completeness auto
termination
  by (relation "measure (\<lambda>(regex, s). length s)") auto

section \<open>Bounding boxes in YOLO form\<close>

text \<open>
  One row of the per-image label frame \<^verbatim>\<open>img_labels\<close>, whose columns are
  \<^verbatim>\<open>['class', 'x', 'y', 'w', 'h']\<close>. Python's floats are modelled by exact reals.
\<close>

record yolo_box =
  box_class :: nat
  box_x :: real
  box_y :: real
  box_w :: real
  box_h :: real

text \<open>Python's \<^verbatim>\<open>min\<close> and \<^verbatim>\<open>max\<close> of a sequence: no value on the empty one.\<close>

fun py_min :: "real list \<Rightarrow> real option" where
  "py_min [] = None"
| "py_min (v # vs) = Some (fold min vs v)"

fun py_max :: "real list \<Rightarrow> real option" where
  "py_max [] = None"
| "py_max (v # vs) = Some (fold max vs v)"

text \<open>
  Modelled from the spec: \<^verbatim>\<open>points_to_yolo\<close> lives in the module \<^verbatim>\<open>utils\<close>, which is
  not among the source files; only its calls
  \<^verbatim>\<open>points_to_yolo(img_labels, contour, part_id, img_h, img_w)\<close> are. The definition follows
  section 4.1 of the spec: the axis-aligned bounding box of the contour, its centre and extent
  divided by the image width and height. The call sites never append to \<^verbatim>\<open>img_labels\<close>
  themselves, so the row is appended here; the result is the extended frame and the new row.
  An empty contour has no minimum, and the spec gives no quotient for a zero width or height:
  the model has no result there.
\<close>

definition points_to_yolo ::
  "yolo_box list \<Rightarrow> (real \<times> real) list \<Rightarrow> nat \<Rightarrow> nat \<Rightarrow> nat \<Rightarrow> (yolo_box list \<times> yolo_box) option"
where
  "points_to_yolo img_labels points part_id img_h img_w =
     (case (py_min (map fst points), py_max (map fst points),
            py_min (map snd points), py_max (map snd points)) of
        (Some x_min, Some x_max, Some y_min, Some y_max) \<Rightarrow>
          if img_w = 0 \<or> img_h = 0 then None
          else
            let row = \<lparr>box_class = part_id,
                       box_x = (x_min + x_max) / 2 / real img_w,
                       box_y = (y_min + y_max) / 2 / real img_h,
                       box_w = (x_max - x_min) / real img_w,
                       box_h = (y_max - y_min) / real img_h\<rparr>
            in Some (img_labels @ [row], row)
      | _ \<Rightarrow> None)"

section \<open>Part tables and the per-image label loop\<close>

text \<open>
  A part table is a Python dict from a part name to the index lists of its contours, kept
  in insertion order. \<^verbatim>\<open>tbl[part_name]\<close> is \<open>map_of tbl part_name\<close>.
\<close>

type_synonym part_table = "(string \<times> nat list list) list"

definition part_points_helen :: part_table where
  "part_points_helen =
     [(''jaw'', [[0..<41]]),
      (''eye'', [[114..<134], [134..<154]]),
      (''nose'', [[41..<58] @ [154, 174]]),
      (''mouth'', [[58..<114]]),
      (''eyebrow'', [[154..<174], [174..<194]])]"

definition use_parts :: "string list" where
  "use_parts = filter (\<lambda>p. p \<noteq> ''jaw'') (map fst part_points_helen)"

definition part_points_afw :: part_table where
  "part_points_afw =
     [(''jaw'', [[0..<17]]),
      (''eye'', [[36..<42], [42..<48]]),
      (''nose'', [[27..<36] @ [21, 22]]),
      (''mouth'', [[48..<68]]),
      (''eyebrow'', [[17..<22], [22..<27]])]"

definition part_points_menpo :: "(string \<times> part_table) list" where
  "part_points_menpo =
     [(''semifrontal'', part_points_afw),
      (''profile'',
         [(''jaw'', [[0..<12]]),
          (''eye'', [[22..<27]]),
          (''nose'', [[16..<22]]),
          (''mouth'', [[27..<39]]),
          (''eyebrow'', [[12..<16]])])]"

definition part_points_lapa :: part_table where
  "part_points_lapa =
     [(''jaw'', [[0..<33]]),
      (''eyebrow'', [[33..<42], [42..<51]]),
      (''nose'', [[51..<66]]),
      (''eye'', [[66..<75], [75..<84]]),
      (''mouth'', [[84..<104]])]"

definition exclude_prefix :: "string list" where
  "exclude_prefix = [''HELEN_'', ''IBUG_'', ''AFW_'', ''LFPW_'']"

text \<open>
  The landmark-converting adapters, and the table each one indexes in its label loop.
  A Menpo2D image is a profile one when it has 39 points and a semifrontal one otherwise.
\<close>

datatype adapter = Helen | AFW | Menpo2D_semifrontal | Menpo2D_profile | LaPa

definition menpo_table :: "string \<Rightarrow> part_table" where
  "menpo_table img_type = (case map_of part_points_menpo img_type of Some tbl \<Rightarrow> tbl | None \<Rightarrow> [])"

fun adapter_table :: "adapter \<Rightarrow> part_table" where
  "adapter_table Helen = part_points_helen"
| "adapter_table AFW = part_points_afw"
| "adapter_table Menpo2D_semifrontal = menpo_table ''semifrontal''"
| "adapter_table Menpo2D_profile = menpo_table ''profile''"
| "adapter_table LaPa = part_points_lapa"

text \<open>The number of contours a table lists for a part (none for a missing key).\<close>

definition n_contours :: "part_table \<Rightarrow> string \<Rightarrow> nat" where
  "n_contours tbl part_name = (case map_of tbl part_name of Some groups \<Rightarrow> length groups | None \<Rightarrow> 0)"

text \<open>
  \<^verbatim>\<open>x, y = [float(c) for c in p.split(sep)]\<close>: every piece must convert and there must
  be exactly two. Python's \<^verbatim>\<open>float\<close> on a string is the parameter \<open>float_of\<close>.
\<close>

definition parse_point :: "(string \<Rightarrow> real option) \<Rightarrow> string \<Rightarrow> string \<Rightarrow> (real \<times> real) option" where
  "parse_point float_of sep p =
     (case those (map float_of (py_split p sep)) of
        Some [x, y] \<Rightarrow> Some (x, y)
      | _ \<Rightarrow> None)"

text \<open>
  The contour of one index list, read from text lines (Helen, AFW, LaPa):
  \<^verbatim>\<open>points = [lines[i] for i in idxs]\<close>, then each point is parsed.
\<close>

definition lines_contour ::
  "(string \<Rightarrow> real option) \<Rightarrow> string \<Rightarrow> string list \<Rightarrow> nat list \<Rightarrow> (real \<times> real) list option"
where
  "lines_contour float_of sep lines idxs =
     (case those (map (py_index lines) idxs) of
        None \<Rightarrow> None
      | Some points \<Rightarrow> those (map (parse_point float_of sep) points))"

text \<open>The contour of one index list, read from the coordinate lists of a Menpo2D row.\<close>

definition menpo_contour :: "real list \<Rightarrow> real list \<Rightarrow> nat list \<Rightarrow> (real \<times> real) list option" where
  "menpo_contour x_points y_points idxs =
     (case (those (map (py_index x_points) idxs), those (map (py_index y_points) idxs)) of
        (Some x_points_part, Some y_points_part) \<Rightarrow> Some (zip x_points_part y_points_part)
      | _ \<Rightarrow> None)"

text \<open>
  The loop every adapter runs on one image, with the frame \<open>img_labels\<close> passed along:
  \<^verbatim>\<open>for part_id, part_name in enumerate(use_parts):
      for idxs in tbl[part_name]:
          contour = ...
          points_to_yolo(img_labels, contour, part_id, img_h, img_w)\<close>
  The drawing calls only change the preview image and are left out.
\<close>

fun contours_loop ::
  "(nat list \<Rightarrow> (real \<times> real) list option) \<Rightarrow> nat \<Rightarrow> nat \<Rightarrow> nat \<Rightarrow> nat list list \<Rightarrow>
     yolo_box list \<Rightarrow> yolo_box list option"
where
  "contours_loop contour part_id img_h img_w [] img_labels = Some img_labels"
| "contours_loop contour part_id img_h img_w (idxs # rest) img_labels =
     (case contour idxs of
        None \<Rightarrow> None
      | Some c \<Rightarrow>
          (case points_to_yolo img_labels c part_id img_h img_w of
             None \<Rightarrow> None
           | Some (img_labels', row) \<Rightarrow> contours_loop contour part_id img_h img_w rest img_labels'))"

fun parts_loop ::
  "part_table \<Rightarrow> (nat list \<Rightarrow> (real \<times> real) list option) \<Rightarrow> nat \<Rightarrow> nat \<Rightarrow> (nat \<times> string) list \<Rightarrow>
     yolo_box list \<Rightarrow> yolo_box list option"
where
  "parts_loop tbl contour img_h img_w [] img_labels = Some img_labels"
| "parts_loop tbl contour img_h img_w ((part_id, part_name) # rest) img_labels =
     (case map_of tbl part_name of
        None \<Rightarrow> None
      | Some groups \<Rightarrow>
          (case contours_loop contour part_id img_h img_w groups img_labels of
             None \<Rightarrow> None
           | Some img_labels' \<Rightarrow> parts_loop tbl contour img_h img_w rest img_labels'))"

definition image_labels ::
  "part_table \<Rightarrow> (nat list \<Rightarrow> (real \<times> real) list option) \<Rightarrow> nat \<Rightarrow> nat \<Rightarrow> yolo_box list option"
where
  "image_labels tbl contour img_h img_w = parts_loop tbl contour img_h img_w (enumerate 0 use_parts) []"

text \<open>The \<^verbatim>\<open>names\<close> entry of \<^verbatim>\<open>data.yaml\<close>: \<^verbatim>\<open>{i: p for i, p in enumerate(use_parts)}\<close>.\<close>

definition yaml_names :: "(nat \<times> string) list" where
  "yaml_names = enumerate 0 use_parts"

section \<open>The outside world\<close>

text \<open>
  What the script takes from libraries whose code is not its own is a parameter of the
  model:
  \<^item> \<open>float_of\<close>: Python's \<^verbatim>\<open>float\<close> on a string, none when it raises;
  \<^item> \<open>round6\<close>: what \<^verbatim>\<open>DataFrame.round(6)\<close> makes of a cell of a float column;
  \<^item> \<open>cell_class\<close>, \<open>cell_float\<close>: how \<^verbatim>\<open>to_csv\<close> prints a class cell and a float cell;
  \<^item> \<open>unidecode\<close>: the function of that name;
  \<^item> \<open>replace_regex\<close>: whether \<^verbatim>\<open>Series.str.replace\<close> reads its pattern as a regular
    expression by default;
  \<^item> \<open>read_names\<close>: \<^verbatim>\<open>pandas.read_csv(path, header=None)\<close> on the lines of a file, as its
    column 0; none when pandas raises (an empty file) or when a cell it yields is not a
    string (pandas reads a file of numerals as numbers and a cell such as \<^verbatim>\<open>NA\<close> as a missing
    value, and \<^verbatim>\<open>process_names\<close> then raises at \<^verbatim>\<open>os.path.splitext\<close>);
  \<^item> \<open>quote_cr\<close>: whether the csv writer at hand quotes a cell that holds a carriage return;
  \<^item> \<open>randbits\<close>: the raw output of the generator that \<^verbatim>\<open>random.seed(420)\<close> fixes;
  \<^item> \<open>hash_key\<close>: the order in which the process at hand iterates a set of strings.
\<close>

record pyenv =
  float_of :: "string \<Rightarrow> real option"
  round6 :: "real \<Rightarrow> real"
  cell_class :: "nat \<Rightarrow> string"
  cell_float :: "real \<Rightarrow> string"
  unidecode :: "string \<Rightarrow> string"
  replace_regex :: bool
  read_names :: "string list \<Rightarrow> string list option"
  quote_cr :: bool
  randbits :: "nat \<Rightarrow> nat"
  hash_key :: "string \<Rightarrow> nat"

section \<open>Writing a label file\<close>

text \<open>
  \<^verbatim>\<open>img_labels.round(6).to_csv(label_dest, header=False, index=False, sep=" ")\<close>: the four
  float columns are rounded, and with no header and no index the file has one line per row,
  its five cells joined by a blank. A file is the list of its newline-terminated lines.
\<close>

definition round_row :: "pyenv \<Rightarrow> yolo_box \<Rightarrow> yolo_box" where
  "round_row E b =
     \<lparr>box_class = box_class b, box_x = round6 E (box_x b), box_y = round6 E (box_y b),
      box_w = round6 E (box_w b), box_h = round6 E (box_h b)\<rparr>"

fun join_sep :: "string \<Rightarrow> string list \<Rightarrow> string" where
  "join_sep sep [] = []"
| "join_sep sep [s] = s"
| "join_sep sep (s # t # ts) = s @ sep @ join_sep sep (t # ts)"

definition csv_line :: "pyenv \<Rightarrow> yolo_box \<Rightarrow> string" where
  "csv_line E b =
     join_sep '' '' [cell_class E (box_class b), cell_float E (box_x b), cell_float E (box_y b),
                    cell_float E (box_w b), cell_float E (box_h b)]"

definition to_csv :: "pyenv \<Rightarrow> yolo_box list \<Rightarrow> string list" where
  "to_csv E img_labels = map (csv_line E) (map (round_row E) img_labels)"

text \<open>
  \<^verbatim>\<open>Series.to_csv(path, header=False, index=False)\<close> of a column of strings: one line per
  cell. The csv writer puts a cell that holds a comma, a double quote or a line feed (and,
  for some versions, a carriage return) between double quotes and doubles the quotes in it.
\<close>

definition csv_special :: "pyenv \<Rightarrow> char \<Rightarrow> bool" where
  "csv_special E c =
     (c = CHR '','' \<or> c = CHR 0x22 \<or> c = CHR 0x0A \<or> (quote_cr E \<and> c = CHR 0x0D))"

definition csv_escape :: "string \<Rightarrow> string" where
  "csv_escape s = concat (map (\<lambda>c. if c = CHR 0x22 then [CHR 0x22, CHR 0x22] else [c]) s)"

definition csv_cell :: "pyenv \<Rightarrow> string \<Rightarrow> string" where
  "csv_cell E s =
     (if list_ex (csv_special E) s then [CHR 0x22] @ csv_escape s @ [CHR 0x22] else s)"

text \<open>
  What the run leaves in the unified pool, in the order it is written: an image copied to
  \<^verbatim>\<open>images/<dest>\<close>, a label file copied to \<^verbatim>\<open>labels/<dest>\<close>, or a label file written
  by \<^verbatim>\<open>to_csv\<close> to \<^verbatim>\<open>labels/<dest>\<close>. Sources are named relative to their dataset folder.
\<close>

datatype file_write =
    CopyImage string string
  | CopyLabel string string
  | WriteLabel string "string list"

text \<open>The file a finished log leaves at a destination: the last write wins.\<close>

fun image_dest :: "file_write \<Rightarrow> string option" where
  "image_dest (CopyImage src dest) = Some dest"
| "image_dest _ = None"

fun label_dest :: "file_write \<Rightarrow> string option" where
  "label_dest (CopyImage src dest) = None"
| "label_dest (CopyLabel src dest) = Some dest"
| "label_dest (WriteLabel dest text) = Some dest"

text \<open>The images and the label files of a log, in the order they are written.\<close>

fun copied_images :: "file_write list \<Rightarrow> string list" where
  "copied_images [] = []"
| "copied_images (CopyImage src dest # ws) = dest # copied_images ws"
| "copied_images (w # ws) = copied_images ws"

fun written_labels :: "file_write list \<Rightarrow> string list" where
  "written_labels [] = []"
| "written_labels (CopyImage src dest # ws) = written_labels ws"
| "written_labels (CopyLabel src dest # ws) = dest # written_labels ws"
| "written_labels (WriteLabel dest text # ws) = dest # written_labels ws"

definition final_image :: "file_write list \<Rightarrow> string \<Rightarrow> file_write option" where
  "final_image writes dest = find (\<lambda>w. image_dest w = Some dest) (rev writes)"

definition final_label :: "file_write list \<Rightarrow> string \<Rightarrow> file_write option" where
  "final_label writes dest = find (\<lambda>w. label_dest w = Some dest) (rev writes)"

text \<open>
  A loop over samples whose body may fail: the writes of the bodies in order, and no result
  as soon as one body raises.
\<close>

fun for_each :: "('a \<Rightarrow> 'b list option) \<Rightarrow> 'a list \<Rightarrow> 'b list option" where
  "for_each body [] = Some []"
| "for_each body (x # xs) =
     (case body x of
        None \<Rightarrow> None
      | Some ws \<Rightarrow> (case for_each body xs of None \<Rightarrow> None | Some rest \<Rightarrow> Some (ws @ rest)))"

text \<open>
  \<^verbatim>\<open>glob(prefix + "*" + suffix)\<close> over a directory listing, in listing order; a name that
  starts with a dot only matches a pattern that starts with one. (The prefixes are parts of
  file names and are taken to hold no glob metacharacter.)
\<close>

definition glob_match :: "string \<Rightarrow> string \<Rightarrow> string \<Rightarrow> bool" where
  "glob_match prefix suffix f =
     (startswith f prefix \<and> endswith (drop (length prefix) f) suffix \<and>
      (if startswith f ''.'' then startswith prefix ''.'' else True))"

definition glob :: "string list \<Rightarrow> string \<Rightarrow> string \<Rightarrow> string list" where
  "glob listing prefix suffix = filter (glob_match prefix suffix) listing"

text \<open>
  \<^verbatim>\<open>list(set(xs))\<close>: the distinct elements, in the iteration order of the set. That order
  follows the strings' hashes, which CPython salts anew for each process unless
  \<^verbatim>\<open>PYTHONHASHSEED\<close> is set; the sort key stands for the order of the run at hand.
\<close>

definition list_of_set :: "(string \<Rightarrow> nat) \<Rightarrow> string list \<Rightarrow> string list" where
  "list_of_set key xs = sort_key key (remdups xs)"

text \<open>
  \<^verbatim>\<open>random.shuffle(x)\<close>:
  \<^verbatim>\<open>for i in reversed(range(1, len(x))):
      j = randbelow(i + 1)
      x[i], x[j] = x[j], x[i]\<close>
  The generator is a stream of raw values read at a position \<open>k\<close> that each draw advances;
  \<^verbatim>\<open>randbelow(n)\<close> is the raw value reduced below \<open>n\<close>. The result is the shuffled list and
  the next position.
\<close>

fun shuffle_loop :: "(nat \<Rightarrow> nat) \<Rightarrow> nat \<Rightarrow> nat \<Rightarrow> 'a list \<Rightarrow> 'a list \<times> nat" where
  "shuffle_loop rand k 0 x = (x, k)"
| "shuffle_loop rand k (Suc i') x =
     (let i = Suc i';
          j = rand k mod (i + 1)
      in shuffle_loop rand (k + 1) i' (x[i := x ! j, j := x ! i]))"

definition shuffle :: "(nat \<Rightarrow> nat) \<Rightarrow> nat \<Rightarrow> 'a list \<Rightarrow> 'a list \<times> nat" where
  "shuffle rand k x = shuffle_loop rand k (length x - 1) x"

text \<open>
  \<^verbatim>\<open>train_size = int(train_pct * len(names))\<close> with \<^verbatim>\<open>train_pct = 0.7\<close>, in binary
  floating point. The double nearest to 0.7 is \<open>6305039478318694 / 2 ^ 53\<close>; its product with
  the length is rounded to 53 significant bits, ties to the even neighbour, and \<^verbatim>\<open>int\<close>
  drops the fraction. (A length is far below \<open>2 ^ 53\<close>, so it is a double itself.)
\<close>

function bit_length :: "nat \<Rightarrow> nat" where
  "bit_length n = (if n = 0 then 0 else Suc (bit_length (n div 2)))"
  by pat_completeness auto
termination
  by (relation "measure id") auto

definition train_pct_mantissa :: nat where
  "train_pct_mantissa = 6305039478318694"

definition round_to_53_bits :: "nat \<Rightarrow> nat" where
  "round_to_53_bits p =
     (let e = bit_length p - 53;
          q = p div 2 ^ e;
          r = p mod 2 ^ e
      in if 2 * r > 2 ^ e \<or> (2 * r = 2 ^ e \<and> odd q) then (q + 1) * 2 ^ e else q * 2 ^ e)"

definition train_size :: "nat \<Rightarrow> nat" where
  "train_size n = round_to_53_bits (n * train_pct_mantissa) div 2 ^ 53"

section \<open>The input tree\<close>

text \<open>
  What the run reads below the datasets folder: directory listings in the order
  \<^verbatim>\<open>os.listdir\<close> and \<^verbatim>\<open>glob\<close> give them, the lines of text files, and, for an image,
  whether it is there to be copied and the height and width \<^verbatim>\<open>cv2.imread\<close> finds (none
  for a file it cannot read: the script then fails at \<^verbatim>\<open>img.shape\<close>). \<open>helen_trainnames\<close>
  and \<open>helen_testnames\<close> are the lines of the two name files, \<open>fasseg_splits\<close> the rows of
  \<^verbatim>\<open>split_info.csv\<close> below its header. Paths are relative to the datasets folder.
\<close>

record input_tree =
  helen_images :: "string list"
  helen_annotations :: "string list list"
  helen_trainnames :: "string list"
  helen_testnames :: "string list"
  pexels_sets :: "(string \<times> string list) list"
  afw_listing :: "string list"
  lapa_images :: "string \<Rightarrow> string list"
  fasseg_labels :: "string list"
  fasseg_splits :: "(string \<times> int) list"
  read_lines :: "string \<Rightarrow> string list option"
  is_file :: "string \<Rightarrow> bool"
  imread :: "string \<Rightarrow> (nat \<times> nat) option"

text \<open>\<^verbatim>\<open>shutil.copy\<close> of an image: fails when the source is missing.\<close>

definition copy_image :: "input_tree \<Rightarrow> string \<Rightarrow> string \<Rightarrow> file_write list option" where
  "copy_image T src dest = (if is_file T src then Some [CopyImage src dest] else None)"

section \<open>Part 1: Helen\<close>

text \<open>
  The frame \<^verbatim>\<open>img_face_df\<close>: one row per file of the image folder, sorted by name, with
  the piece before the first underscore and the integer read from the piece after it.
  \<^verbatim>\<open>astype(int)\<close> converts to 64-bit integers and raises on a value beyond them. On an empty
  folder the column of names holds no strings and its \<^verbatim>\<open>.str\<close> accessor raises.
\<close>

record face_row =
  df_img_name :: string
  df_img_id :: string
  df_face_id :: int

definition astype_int :: "string \<Rightarrow> int option" where
  "astype_int s =
     (case py_int s of
        None \<Rightarrow> None
      | Some v \<Rightarrow> if - (2 ^ 63) \<le> v \<and> v < 2 ^ 63 then Some v else None)"

definition img_face_row :: "pyenv \<Rightarrow> string \<Rightarrow> face_row option" where
  "img_face_row E name =
     (case py_split name ''_'' of
        a # b # rest \<Rightarrow>
          map_option (\<lambda>f. \<lparr>df_img_name = name, df_img_id = a, df_face_id = f\<rparr>)
            (astype_int (replace_jpg (replace_regex E) b))
      | _ \<Rightarrow> None)"

definition img_face_df :: "pyenv \<Rightarrow> input_tree \<Rightarrow> face_row list option" where
  "img_face_df E T =
     (if helen_images T = [] then None
      else those (map (img_face_row E) (sort (helen_images T))))"

text \<open>\<^verbatim>\<open>groupby(['img_id']).size()\<close>: each distinct id with the number of its rows.\<close>

definition face_counts :: "face_row list \<Rightarrow> (string \<times> nat) list" where
  "face_counts df =
     map (\<lambda>i. (i, length (filter (\<lambda>r. df_img_id r = i) df))) (sort (remdups (map df_img_id df)))"

definition imgs_multi_faces :: "face_row list \<Rightarrow> string list" where
  "imgs_multi_faces df = map fst (filter (\<lambda>(i, face_count). face_count > 1) (face_counts df))"


definition skip_imgs_of :: "face_row list \<Rightarrow> string list" where
  "skip_imgs_of df =
     map df_img_name
       (filter (\<lambda>r. first_piece (df_img_name r) ''_'' \<in> set (imgs_multi_faces df) \<or> df_face_id r > 1) df)"

definition skip_imgs :: "pyenv \<Rightarrow> input_tree \<Rightarrow> string list option" where
  "skip_imgs E T = map_option skip_imgs_of (img_face_df E T)"

text \<open>
  One annotation file: its first line names the image, the others are its points. A skipped
  image writes nothing; any other is converted, copied, and its label file written.
\<close>

definition helen_image_labels :: "pyenv \<Rightarrow> string list \<Rightarrow> nat \<Rightarrow> nat \<Rightarrow> yolo_box list option" where
  "helen_image_labels E lines img_h img_w =
     image_labels part_points_helen (lines_contour (float_of E) '' , '' lines) img_h img_w"

definition helen_sample :: "pyenv \<Rightarrow> input_tree \<Rightarrow> string list \<Rightarrow> string list \<Rightarrow> file_write list option" where
  "helen_sample E T skip raw =
     (case map rstrip raw of
        [] \<Rightarrow> None
      | first # lines \<Rightarrow>
          let img_name = first @ ''.jpg'' in
          if img_name \<in> set skip then Some []
          else
            (case imread T (path_join ''Helen-dataset/images'' img_name) of
               None \<Rightarrow> None
             | Some (img_h, img_w) \<Rightarrow>
                 (case helen_image_labels E lines img_h img_w of
                    None \<Rightarrow> None
                  | Some img_labels \<Rightarrow>
                      Some [CopyImage (path_join ''Helen-dataset/images'' img_name) img_name,
                            WriteLabel (fst (splitext img_name) @ ''.txt'')
                              (to_csv E img_labels)])))"

text \<open>The image an annotation file names on its first line (none for an empty file).\<close>

definition annotated_image :: "string list \<Rightarrow> string" where
  "annotated_image raw = (case map rstrip raw of [] \<Rightarrow> [] | first # lines \<Rightarrow> first @ ''.jpg'')"

definition helen_pass :: "pyenv \<Rightarrow> input_tree \<Rightarrow> string list \<Rightarrow> file_write list option" where
  "helen_pass E T skip = for_each (helen_sample E T skip) (helen_annotations T)"

section \<open>Part 2: Pexels\<close>

definition pexels_sample :: "pyenv \<Rightarrow> input_tree \<Rightarrow> string \<Rightarrow> string \<Rightarrow> file_write list option" where
  "pexels_sample E T s l =
     (let file_name_cleaned = unidecode E (fst (splitext l));
          img_name = fst (splitext l) @ ''.jpg''
      in case copy_image T (path_join ''Pexels-face-parts'' (path_join s (path_join ''images'' img_name)))
                (file_name_cleaned @ ''.jpg'') of
           None \<Rightarrow> None
         | Some ws \<Rightarrow>
             Some (ws @
               [CopyLabel
                  (path_join ''Pexels-face-parts'' (path_join s (path_join ''annotations/obj_train_data'' l)))
                  (file_name_cleaned @ ''.txt'')]))"

definition pexels_pass :: "pyenv \<Rightarrow> input_tree \<Rightarrow> file_write list option" where
  "pexels_pass E T = for_each (\<lambda>(s, pexels_labels). for_each (pexels_sample E T s) pexels_labels) (pexels_sets T)"

definition pexels_names :: "pyenv \<Rightarrow> input_tree \<Rightarrow> string list" where
  "pexels_names E T =
     concat (map (\<lambda>(s, pexels_labels). map (\<lambda>l. unidecode E (fst (splitext l))) pexels_labels) (pexels_sets T))"

section \<open>Part 3: AFW\<close>

definition afw_images :: "input_tree \<Rightarrow> string list" where
  "afw_images T = glob (afw_listing T) [] ''.jpg''"

definition afw_names :: "pyenv \<Rightarrow> input_tree \<Rightarrow> string list" where
  "afw_names E T = list_of_set (hash_key E) (map (\<lambda>f. first_piece (basename f) ''_'') (afw_images T))"

text \<open>
  The faces of one base name. Every image of the group is copied to the same
  \<^verbatim>\<open>{n}.jpg\<close> and its label frame written to the same \<^verbatim>\<open>{n}.txt\<close>; the image is read, and
  its height and width taken, at \<^verbatim>\<open>i == 0\<close> only, and \<open>dims\<close> carries them on.
\<close>

definition afw_image_labels :: "pyenv \<Rightarrow> string list \<Rightarrow> nat \<Rightarrow> nat \<Rightarrow> yolo_box list option" where
  "afw_image_labels E lines img_h img_w =
     image_labels part_points_afw (lines_contour (float_of E) '' '' lines) img_h img_w"

fun afw_faces_loop ::
  "pyenv \<Rightarrow> input_tree \<Rightarrow> string \<Rightarrow> string list \<Rightarrow> (nat \<times> nat) option \<Rightarrow> (nat \<times> string) list \<Rightarrow>
     file_write list option"
where
  "afw_faces_loop E T n grouped_points dims [] = Some []"
| "afw_faces_loop E T n grouped_points dims ((i, img_name) # rest) =
     (case py_index grouped_points i of
        None \<Rightarrow> None
      | Some pts \<Rightarrow>
          (case read_lines T (path_join ''AFW-dataset'' pts) of
             None \<Rightarrow> None
           | Some raw \<Rightarrow>
               let lines = drop 3 (butlast (map rstrip raw));
                   dims' = (if i = 0 then imread T (path_join ''AFW-dataset'' img_name) else dims)
               in (case dims' of
                     None \<Rightarrow> None
                   | Some (img_h, img_w) \<Rightarrow>
                       (case afw_image_labels E lines img_h img_w of
                          None \<Rightarrow> None
                        | Some img_labels \<Rightarrow>
                            (case afw_faces_loop E T n grouped_points dims' rest of
                               None \<Rightarrow> None
                             | Some ws \<Rightarrow>
                                 Some (CopyImage (path_join ''AFW-dataset'' img_name) (n @ ''.jpg'')
                                       # WriteLabel (n @ ''.txt'')
                                           (to_csv E img_labels)
                                       # ws))))))"

definition afw_group :: "pyenv \<Rightarrow> input_tree \<Rightarrow> string \<Rightarrow> file_write list option" where
  "afw_group E T n =
     (let grouped_images = glob (afw_listing T) n ''.jpg'';
          grouped_points = glob (afw_listing T) n ''.pts''
      in afw_faces_loop E T n grouped_points None (enumerate 0 grouped_images))"

definition afw_pass :: "pyenv \<Rightarrow> input_tree \<Rightarrow> string list \<Rightarrow> file_write list option" where
  "afw_pass E T names = for_each (afw_group E T) names"

section \<open>Part 4: Menpo2D\<close>

text \<open>\<^verbatim>\<open>xs[0::2]\<close>: every second element, starting with the first.\<close>

fun every_other :: "'a list \<Rightarrow> 'a list" where
  "every_other [] = []"
| "every_other [x] = [x]"
| "every_other (x # y # rest) = x # every_other rest"

text \<open>
  One row of a split file: an image path, then the numbers of the row. The files of a split
  \<open>s\<close> sit in the folder with the capitalised name \<open>S\<close>, the profile file read first.
\<close>

definition menpo_row :: "string \<Rightarrow> string \<times> string list" where
  "menpo_row l =
     (case py_split (rstrip (rstrip l)) '' '' of
        a # rest \<Rightarrow> (a, rest)
      | [] \<Rightarrow> ([], []))"

definition menpo_split_data :: "input_tree \<Rightarrow> string \<Rightarrow> string \<Rightarrow> (string \<times> string list) list option" where
  "menpo_split_data T S s =
     map_option concat
       (those (map (\<lambda>img_type.
                 map_option (map menpo_row)
                   (read_lines T
                      (path_join ''Menpo2D'' (path_join S (''Menpo2D_'' @ img_type @ ''_'' @ s @ ''.txt'')))))
               [''profile'', ''semifrontal'']))"

definition menpo_names :: "(string \<times> string list) list \<Rightarrow> string list" where
  "menpo_names split_data = map (\<lambda>(f, landmarks). fst (splitext (basename f))) split_data"

definition menpo_image_labels :: "real list \<Rightarrow> real list \<Rightarrow> nat \<Rightarrow> nat \<Rightarrow> yolo_box list option" where
  "menpo_image_labels x_points y_points img_h img_w =
     (let img_type = (if length x_points = 39 then ''profile'' else ''semifrontal'')
      in case map_of part_points_menpo img_type of
           None \<Rightarrow> None
         | Some tbl \<Rightarrow> image_labels tbl (menpo_contour x_points y_points) img_h img_w)"

definition menpo_sample :: "pyenv \<Rightarrow> input_tree \<Rightarrow> string \<Rightarrow> string \<times> string list \<Rightarrow> file_write list option" where
  "menpo_sample E T S sample =
     (case sample of (img_path, landmarks) \<Rightarrow>
        let img_source = path_join ''Menpo2D'' (path_join S img_path) in
        (case copy_image T img_source (basename img_path) of
           None \<Rightarrow> None
         | Some ws \<Rightarrow>
             (case those (map (float_of E) landmarks) of
                None \<Rightarrow> None
              | Some img_landmarks \<Rightarrow>
                  let x_points = every_other (drop 14 img_landmarks);
                      y_points = every_other (drop 15 img_landmarks)
                  in (case imread T img_source of
                        None \<Rightarrow> None
                      | Some (img_h, img_w) \<Rightarrow>
                          (case menpo_image_labels x_points y_points img_h img_w of
                             None \<Rightarrow> None
                           | Some img_labels \<Rightarrow>
                               Some (ws @
                                 [WriteLabel (fst (splitext (basename img_path)) @ ''.txt'')
                                    (to_csv E img_labels)]))))))"

definition menpo_pass :: "pyenv \<Rightarrow> input_tree \<Rightarrow> string \<Rightarrow> (string \<times> string list) list \<Rightarrow> file_write list option" where
  "menpo_pass E T S split_data = for_each (menpo_sample E T S) split_data"

section \<open>Part 5: LaPa\<close>

text \<open>
  The images of a split; those of the training split whose name holds one of the strings of
  \<open>exclude_prefix\<close> anywhere (\<^verbatim>\<open>n in f\<close>) are left out.
\<close>

definition lapa_split_images :: "input_tree \<Rightarrow> string \<Rightarrow> string list" where
  "lapa_split_images T split_name =
     (let split_images = lapa_images T split_name
      in if split_name = ''train''
         then filter (\<lambda>f. \<not> list_ex (\<lambda>n. contains f n) exclude_prefix) split_images
         else split_images)"

definition lapa_image_labels :: "pyenv \<Rightarrow> string list \<Rightarrow> nat \<Rightarrow> nat \<Rightarrow> yolo_box list option" where
  "lapa_image_labels E lines img_h img_w =
     image_labels part_points_lapa (lines_contour (float_of E) '' '' lines) img_h img_w"

definition lapa_sample :: "pyenv \<Rightarrow> input_tree \<Rightarrow> string \<Rightarrow> string \<Rightarrow> file_write list option" where
  "lapa_sample E T split_name img_name =
     (let img_source = path_join ''LaPa'' (path_join split_name (path_join ''images'' img_name)) in
      case copy_image T img_source img_name of
        None \<Rightarrow> None
      | Some ws \<Rightarrow>
          (case imread T img_source of
             None \<Rightarrow> None
           | Some (img_h, img_w) \<Rightarrow>
               (case read_lines T
                       (path_join ''LaPa'' (path_join split_name
                          (path_join ''landmarks'' (first_piece img_name ''.'' @ ''.txt'')))) of
                  None \<Rightarrow> None
                | Some raw \<Rightarrow>
                    (case map rstrip raw of
                       [] \<Rightarrow> None
                     | num_landmarks # lines \<Rightarrow>
                         (case lapa_image_labels E lines img_h img_w of
                            None \<Rightarrow> None
                          | Some img_labels \<Rightarrow>
                              Some (ws @
                                [WriteLabel (fst (splitext img_name) @ ''.txt'')
                                   (to_csv E img_labels)]))))))"

definition lapa_pass :: "pyenv \<Rightarrow> input_tree \<Rightarrow> string \<Rightarrow> file_write list option" where
  "lapa_pass E T split_name = for_each (lapa_sample E T split_name) (lapa_split_images T split_name)"

text \<open>The names the loop appends for a split, one per processed image.\<close>

definition lapa_names :: "input_tree \<Rightarrow> string \<Rightarrow> string list" where
  "lapa_names T split_name = map (\<lambda>img_name. fst (splitext img_name)) (lapa_split_images T split_name)"

section \<open>Part 6: FASSEG\<close>

definition fasseg_sample :: "input_tree \<Rightarrow> string \<Rightarrow> file_write list option" where
  "fasseg_sample T l =
     (let file_name = fst (splitext l);
          img_name = file_name @ ''.bmp''
      in case copy_image T (path_join ''FASSEG/joined-V2-V3/images'' img_name) (file_name @ ''.bmp'') of
           None \<Rightarrow> None
         | Some ws \<Rightarrow>
             Some (ws @
               [CopyLabel (path_join ''FASSEG/joined-V2-V3/annotations/obj_train_data'' l)
                  (file_name @ ''.txt'')]))"

definition fasseg_pass :: "input_tree \<Rightarrow> file_write list option" where
  "fasseg_pass T = for_each (fasseg_sample T) (fasseg_labels T)"

definition fasseg_train_names :: "input_tree \<Rightarrow> string list" where
  "fasseg_train_names T = map fst (filter (\<lambda>(image, is_train). is_train = 1) (fasseg_splits T))"

definition fasseg_val_names :: "input_tree \<Rightarrow> string list" where
  "fasseg_val_names T = map fst (filter (\<lambda>(image, is_train). is_train = 0) (fasseg_splits T))"

section \<open>Part 7: the manifests\<close>

text \<open>
  \<^verbatim>\<open>process_names\<close>: the rows of \<open>names\<close> that are not in \<open>skip\<close>, as the lines of
  \<^verbatim>\<open>images.txt\<close> and of \<^verbatim>\<open>labels.txt\<close>. \<open>use_imgs\<close> and \<open>use_labels\<close> are the two columns
  the function hands to \<^verbatim>\<open>to_csv\<close>.
\<close>

definition fill_img_ext :: "string \<Rightarrow> string \<Rightarrow> string \<Rightarrow> string" where
  "fill_img_ext path_data x ext =
     (if length (snd (splitext x)) = 0
      then path_join path_data (path_join ''images'' (x @ ext))
      else path_join path_data (path_join ''images'' x))"

definition use_rows :: "string list \<Rightarrow> string list \<Rightarrow> string list" where
  "use_rows names skip = filter (\<lambda>x. x \<notin> set skip) names"

definition use_imgs :: "string list \<Rightarrow> string \<Rightarrow> string list \<Rightarrow> string list" where
  "use_imgs names path_data skip = map (\<lambda>x. fill_img_ext path_data x ''.jpg'') (use_rows names skip)"

definition use_labels :: "string list \<Rightarrow> string \<Rightarrow> string list \<Rightarrow> string list" where
  "use_labels names path_data skip =
     map (\<lambda>x. path_join path_data (path_join ''labels'' (fst (splitext x) @ ''.txt'')))
       (use_rows names skip)"

definition process_names ::
  "pyenv \<Rightarrow> string list \<Rightarrow> string \<Rightarrow> string list \<Rightarrow> string list \<times> string list"
where
  "process_names E names path_data skip =
     (map (csv_cell E) (use_imgs names path_data skip),
      map (csv_cell E) (use_labels names path_data skip))"

text \<open>\<^verbatim>\<open>names[:train_size]\<close> and \<^verbatim>\<open>names[train_size:]\<close> of a shuffled list.\<close>

definition split_names :: "string list \<Rightarrow> string list \<times> string list" where
  "split_names names =
     (take (train_size (length names)) names, drop (train_size (length names)) names)"

text \<open>
  The two shuffles, drawing from the one generator: first the names of Pexels, then those
  of AFW.
\<close>

definition shuffled_names :: "pyenv \<Rightarrow> input_tree \<Rightarrow> string list \<times> string list" where
  "shuffled_names E T =
     (let (pexels_shuffled, k) = shuffle (randbits E) 0 (pexels_names E T);
          (afw_shuffled, k') = shuffle (randbits E) k (afw_names E T)
      in (pexels_shuffled, afw_shuffled))"

text \<open>
  The frames \<^verbatim>\<open>train_names\<close> and \<^verbatim>\<open>test_names\<close> that part 7 concatenates: the names
  of Helen's two name files, then the names each other part has gathered.
\<close>

definition name_frames :: "pyenv \<Rightarrow> input_tree \<Rightarrow> (string list \<times> string list) option" where
  "name_frames E T = do {
     menpo_train \<leftarrow> menpo_split_data T ''Train'' ''train'';
     menpo_test \<leftarrow> menpo_split_data T ''Test'' ''test'';
     helen_train \<leftarrow> read_names E (helen_trainnames T);
     helen_test \<leftarrow> read_names E (helen_testnames T);
     let (pexels_shuffled, afw_shuffled) = shuffled_names E T;
     Some (helen_train @ fst (split_names pexels_shuffled) @ fst (split_names afw_shuffled)
             @ menpo_names menpo_train @ lapa_names T ''train'' @ fasseg_train_names T,
           helen_test @ snd (split_names pexels_shuffled) @ snd (split_names afw_shuffled)
             @ menpo_names menpo_test @ lapa_names T ''val'' @ fasseg_val_names T)
   }"

record run_result =
  pool :: "file_write list"
  train_manifest :: "string list \<times> string list"
  val_manifest :: "string list \<times> string list"
  data_yaml_names :: "(nat \<times> string) list"

text \<open>
  The whole run, in the order of the script: the six dataset parts, then the manifests.
  No result when any step raises.
\<close>

definition main :: "pyenv \<Rightarrow> input_tree \<Rightarrow> run_result option" where
  "main E T = do {
     skip \<leftarrow> skip_imgs E T;
     helen_writes \<leftarrow> helen_pass E T skip;
     pexels_writes \<leftarrow> pexels_pass E T;
     afw_writes \<leftarrow> afw_pass E T (snd (shuffled_names E T));
     menpo_train \<leftarrow> menpo_split_data T ''Train'' ''train'';
     menpo_test \<leftarrow> menpo_split_data T ''Test'' ''test'';
     menpo_train_writes \<leftarrow> menpo_pass E T ''Train'' menpo_train;
     menpo_test_writes \<leftarrow> menpo_pass E T ''Test'' menpo_test;
     lapa_train_writes \<leftarrow> lapa_pass E T ''train'';
     lapa_val_writes \<leftarrow> lapa_pass E T ''val'';
     fasseg_writes \<leftarrow> fasseg_pass T;
     (train_names, test_names) \<leftarrow> name_frames E T;
     let skip_helen_ids = map (\<lambda>s. fst (splitext s)) skip;
     Some \<lparr>pool = helen_writes @ pexels_writes @ afw_writes @ menpo_train_writes
                    @ menpo_test_writes @ lapa_train_writes @ lapa_val_writes @ fasseg_writes,
            train_manifest = process_names E train_names ''Face-Parts-Dataset'' skip_helen_ids,
            val_manifest = process_names E test_names ''Face-Parts-Dataset'' skip_helen_ids,
            data_yaml_names = yaml_names\<rparr>
   }"

section \<open>A concrete environment for worked examples\<close>

text \<open>
  The examples below run the definitions on concrete inputs. They use whole-number
  coordinates, round a value half-to-even at its sixth decimal, print a class as its decimal
  numeral and a rounded value as the decimal numeral of its millionths, clean a name by
  writing e for an e with acute accent (character 233) and dropping every other character
  beyond ASCII, read patterns literally, read a name file whose every line is a word of
  ASCII letters, digits and underscores with an underscore in it as these lines (and no
  other file), always draw the raw value 0, and order a set by the length of its names.
\<close>

function show_nat :: "nat \<Rightarrow> string" where
  "show_nat n =
     (if n < 10 then [char_of (of_char CHR ''0'' + n)]
      else show_nat (n div 10) @ [char_of (of_char CHR ''0'' + n mod 10)])"
  by pat_completeness auto
termination
  by (relation "measure id") auto

definition is_ascii :: "char \<Rightarrow> bool" where
  "is_ascii c = ((of_char c :: nat) < 128)"

definition example_unidecode :: "string \<Rightarrow> string" where
  "example_unidecode s =
     concat (map (\<lambda>c. if is_ascii c then [c] else if c = CHR 0xE9 then ''e'' else []) s)"

definition round_half_even :: "real \<Rightarrow> int" where
  "round_half_even v =
     (let f = \<lfloor>v\<rfloor>; d = v - of_int f
      in if d < 1 / 2 then f else if d > 1 / 2 then f + 1 else if even f then f else f + 1)"

definition example_round6 :: "real \<Rightarrow> real" where
  "example_round6 v = of_int (round_half_even (v * 10 ^ 6)) / 10 ^ 6"

definition is_word_char :: "char \<Rightarrow> bool" where
  "is_word_char c =
     ((CHR ''a'' \<le> c \<and> c \<le> CHR ''z'') \<or> (CHR ''A'' \<le> c \<and> c \<le> CHR ''Z'') \<or>
      (CHR ''0'' \<le> c \<and> c \<le> CHR ''9'') \<or> c = CHR ''_'')"

definition example_read_names :: "string list \<Rightarrow> string list option" where
  "example_read_names lines =
     (if lines \<noteq> [] \<and> list_all (\<lambda>l. list_all is_word_char l \<and> CHR ''_'' \<in> set l) lines
      then Some lines else None)"

definition example_env :: pyenv where
  "example_env =
     \<lparr>float_of = (\<lambda>s. map_option of_int (py_int s)),
      round6 = example_round6,
      cell_class = show_nat,
      cell_float = (\<lambda>v. show_nat (nat \<lfloor>v * 10 ^ 6\<rfloor>)),
      unidecode = example_unidecode,
      replace_regex = False,
      read_names = example_read_names,
      quote_cr = False,
      randbits = (\<lambda>k. 0),
      hash_key = length\<rparr>"

text \<open>
  Point lines that alternate between two points, as many as each annotation format needs:
  194 for Helen; 68 between three header lines and a footer for AFW; 106 after the count
  line for LaPa.
\<close>

definition helen_example_lines :: "string list" where
  "helen_example_lines = concat (replicate 97 [''30 , 40'', ''50 , 80''])"

definition afw_example_points :: "string list" where
  "afw_example_points =
     [''version: 1'', ''n_points: 68'', ''{''] @ concat (replicate 34 [''30 40'', ''50 80'']) @ [''}'']"

definition lapa_example_landmarks :: "string list" where
  "lapa_example_landmarks = ''106'' # concat (replicate 53 [''30 40'', ''50 80''])"

text \<open>
  A Helen image folder of ten images: seven with one face each, and three faces that share
  the prefix 8.
\<close>

definition helen_ten_images :: "string list" where
  "helen_ten_images =
     [''1_1.jpg'', ''2_1.jpg'', ''3_1.jpg'', ''4_1.jpg'', ''5_1.jpg'', ''6_1.jpg'', ''7_1.jpg'',
      ''8_1.jpg'', ''8_2.jpg'', ''8_3.jpg'']"

text \<open>
  An input tree with every folder empty and every split file of Menpo2D present and empty;
  the examples fill in the dataset they are about.
\<close>

definition empty_tree :: input_tree where
  "empty_tree =
     \<lparr>helen_images = [], helen_annotations = [], helen_trainnames = [], helen_testnames = [],
      pexels_sets = [], afw_listing = [],
      lapa_images = (\<lambda>split_name. []),
      fasseg_labels = [], fasseg_splits = [],
      read_lines = (\<lambda>p. if startswith p ''Menpo2D/'' then Some [] else None),
      is_file = (\<lambda>p. False),
      imread = (\<lambda>p. None)\<rparr>"

text \<open>
  The ten Helen images, each 480 by 640 and each with an annotation file of its name and
  194 points; seven of the names stand in \<^verbatim>\<open>trainnames.txt\<close> and three in
  \<^verbatim>\<open>testnames.txt\<close>.
\<close>

definition helen_ten_tree :: input_tree where
  "helen_ten_tree =
     empty_tree
       \<lparr>helen_images := helen_ten_images,
        helen_annotations := map (\<lambda>n. fst (splitext n) # helen_example_lines) helen_ten_images,
        helen_trainnames := [''1_1'', ''2_1'', ''3_1'', ''4_1'', ''5_1'', ''8_1'', ''8_2''],
        helen_testnames := [''6_1'', ''7_1'', ''8_3''],
        imread := (\<lambda>p. if startswith p ''Helen-dataset/images/'' then Some (480, 640) else None)\<rparr>"






text \<open>
  Two AFW folders. The first holds two images with different base names, 1 and 22. The
  second holds two faces of the base name 1: both images are 480 by 640, and the point file
  of face 2 has other points than that of face 1.
\<close>

definition afw_example_points2 :: "string list" where
  "afw_example_points2 =
     [''version: 1'', ''n_points: 68'', ''{''] @ concat (replicate 34 [''10 20'', ''30 60'']) @ [''}'']"


definition afw_two_faces_tree :: input_tree where
  "afw_two_faces_tree =
     empty_tree
       \<lparr>afw_listing := [''1_1.jpg'', ''1_2.jpg'', ''1_1.pts'', ''1_2.pts''],
        read_lines := (\<lambda>p. if p = ''AFW-dataset/1_1.pts'' then Some afw_example_points
                            else if p = ''AFW-dataset/1_2.pts'' then Some afw_example_points2
                            else read_lines empty_tree p),
        is_file := (\<lambda>p. startswith p ''AFW-dataset/''),
        imread := (\<lambda>p. if p = ''AFW-dataset/1_1.jpg'' then Some (480, 640)
                        else if p = ''AFW-dataset/1_2.jpg'' then Some (480, 640) else None)\<rparr>"

section \<open>The geometry normalizer\<close>

lemma py_min_Min:
  assumes ne: "vs \<noteq> []"
  shows "py_min vs = Some (Min (set vs))"
proof (cases vs)
  case Nil
  with ne show ?thesis by simp
next
  case (Cons v ws)
  have "fold min ws v = Min (set (v # ws))"
    by (rule Min.set_eq_fold [symmetric])
  with Cons show ?thesis by simp
qed

lemma py_max_Max:
  assumes ne: "vs \<noteq> []"
  shows "py_max vs = Some (Max (set vs))"
proof (cases vs)
  case Nil
  with ne show ?thesis by simp
next
  case (Cons v ws)
  have "fold max ws v = Max (set (v # ws))"
    by (rule Max.set_eq_fold [symmetric])
  with Cons show ?thesis by simp
qed

lemma points_to_yolo_Some:
  assumes "points \<noteq> []" and "0 < img_w" and "0 < img_h"
  shows "points_to_yolo img_labels points part_id img_h img_w =
    (let row = \<lparr>box_class = part_id,
        box_x = (Min (fst ` set points) + Max (fst ` set points)) / 2 / real img_w,
        box_y = (Min (snd ` set points) + Max (snd ` set points)) / 2 / real img_h,
        box_w = (Max (fst ` set points) - Min (fst ` set points)) / real img_w,
        box_h = (Max (snd ` set points) - Min (snd ` set points)) / real img_h\<rparr>
     in Some (img_labels @ [row], row))"
  using assms by (simp add: points_to_yolo_def py_min_Min py_max_Max)

text \<open>
  C1. For a contour of at least one point on an image of positive width and height,
  \<open>points_to_yolo\<close> appends and returns the row whose centre is the midpoint of the smallest
  and largest coordinate divided by the image width (height), and whose extent is their
  difference divided by the same; the square contour \<open>(10,10), (10,20), (20,20), (20,10)\<close> on a
  100 by 200 image gives \<open>x = 0.15\<close>, \<open>y = 0.075\<close>, \<open>w = 0.10\<close>, \<open>h = 0.05\<close>.
\<close>

theorem points_to_yolo_bounding_box:
  "(points \<noteq> [] \<and> 0 < img_w \<and> 0 < img_h \<longrightarrow>
      (\<exists>row. points_to_yolo img_labels points part_id img_h img_w = Some (img_labels @ [row], row)
         \<and> box_class row = part_id
         \<and> box_x row = (Min (fst ` set points) + Max (fst ` set points)) / 2 / real img_w
         \<and> box_y row = (Min (snd ` set points) + Max (snd ` set points)) / 2 / real img_h
         \<and> box_w row = (Max (fst ` set points) - Min (fst ` set points)) / real img_w
         \<and> box_h row = (Max (snd ` set points) - Min (snd ` set points)) / real img_h))
   \<and> map_option snd (points_to_yolo img_labels [(10, 10), (10, 20), (20, 20), (20, 10)] part_id 200 100)
       = Some \<lparr>box_class = part_id, box_x = 0.15, box_y = 0.075, box_w = 0.10, box_h = 0.05\<rparr>"
proof (intro conjI impI)
  assume a: "points \<noteq> [] \<and> 0 < img_w \<and> 0 < img_h"
  show "\<exists>row. points_to_yolo img_labels points part_id img_h img_w = Some (img_labels @ [row], row)
         \<and> box_class row = part_id
         \<and> box_x row = (Min (fst ` set points) + Max (fst ` set points)) / 2 / real img_w
         \<and> box_y row = (Min (snd ` set points) + Max (snd ` set points)) / 2 / real img_h
         \<and> box_w row = (Max (fst ` set points) - Min (fst ` set points)) / real img_w
         \<and> box_h row = (Max (snd ` set points) - Min (snd ` set points)) / real img_h"
    using a by (simp add: points_to_yolo_Some Let_def)
next
  show "map_option snd (points_to_yolo img_labels [(10, 10), (10, 20), (20, 20), (20, 10)] part_id 200 100)
       = Some \<lparr>box_class = part_id, box_x = 0.15, box_y = 0.075, box_w = 0.10, box_h = 0.05\<rparr>"
    by (simp add: points_to_yolo_def Let_def)
qed

theorem points_to_yolo_bounding_box_witness:
  "points_to_yolo [] [(50, 50)] 0 100 100
     = Some ([\<lparr>box_class = 0, box_x = 0.5, box_y = 0.5, box_w = 0, box_h = 0\<rparr>],
             \<lparr>box_class = 0, box_x = 0.5, box_y = 0.5, box_w = 0, box_h = 0\<rparr>)"
  using points_to_yolo_bounding_box [of "[(50, 50)]" 100 100 "[]" 0]
  by (auto simp: yolo_box.equality)

section \<open>Loops over samples and their logs\<close>

lemma for_each_eq:
  "for_each body xs =
     (if \<forall>x\<in>set xs. body x \<noteq> None then Some (concat (map (\<lambda>x. the (body x)) xs)) else None)"
  by (induction xs) (auto split: option.splits)

lemma copied_images_append: "copied_images (ws @ ws') = copied_images ws @ copied_images ws'"
  by (induction ws rule: copied_images.induct) simp_all

lemma copied_images_concat: "copied_images (concat wss) = concat (map copied_images wss)"
  by (induction wss) (simp_all add: copied_images_append)



lemma concat_map_if: "concat (map (\<lambda>x. if P x then [] else [f x]) xs) = map f (filter (\<lambda>x. \<not> P x) xs)"
  by (induction xs) simp_all




lemma splitext_append: "fst (splitext p) @ snd (splitext p) = p"
  by (simp add: splitext_def Let_def)








lemma rstrip_alternating:
  assumes "rstrip a = a" and "rstrip b = b"
  shows "map rstrip (concat (replicate n [a, b])) = concat (replicate n [a, b])"
  using assms by (induction n) simp_all

lemma rstrip_example_points:
  "rstrip ''30 , 40'' = ''30 , 40''" "rstrip ''50 , 80'' = ''50 , 80''"
  "rstrip ''30 40'' = ''30 40''" "rstrip ''50 80'' = ''50 80''"
  by code_simp+

lemma rstrip_helen_example: "map rstrip helen_example_lines = helen_example_lines"
  unfolding helen_example_lines_def by (rule rstrip_alternating) (simp_all add: rstrip_example_points)





text \<open>The training size of short lists, computed as the script computes it.\<close>

lemma bit_length_numeral:
  "bit_length (numeral (num.Bit0 k)) = Suc (bit_length (numeral k))"
  "bit_length (numeral (num.Bit1 k)) = Suc (bit_length (numeral k))"
  "bit_length (Suc 0) = 1"
  "bit_length 0 = 0"
  by (subst bit_length.simps, simp add: numeral_Bit0_div_2 numeral_Bit1_div_2)+

lemma train_size_small:
  "train_size 0 = 0" "train_size 1 = 0" "train_size 2 = 1" "train_size 3 = 2"
  by (simp_all add: train_size_def round_to_53_bits_def train_pct_mantissa_def Let_def
      bit_length_numeral del: bit_length.simps)

section \<open>The label loop: class ids and success\<close>

lemma points_to_yolo_row:
  assumes "points_to_yolo img_labels c part_id img_h img_w = Some (img_labels', row)"
  shows "img_labels' = img_labels @ [row] \<and> box_class row = part_id"
  using assms
  by (auto simp: points_to_yolo_def Let_def split: option.splits if_splits)

lemma contours_loop_classes:
  assumes "contours_loop contour part_id img_h img_w groups img_labels = Some img_labels'"
  shows "map box_class img_labels' = map box_class img_labels @ replicate (length groups) part_id"
  using assms
proof (induction groups arbitrary: img_labels)
  case Nil
  then show ?case by simp
next
  case (Cons idxs rest)
  from Cons.prems obtain c l row where
    pc: "points_to_yolo img_labels c part_id img_h img_w = Some (l, row)"
    and rec: "contours_loop contour part_id img_h img_w rest l = Some img_labels'"
    by (auto split: option.splits)
  from points_to_yolo_row [OF pc] have l: "l = img_labels @ [row]" "box_class row = part_id"
    by simp_all
  from Cons.IH [OF rec] l show ?case
    by (simp add: replicate_app_Cons_same)
qed

lemma parts_loop_classes:
  assumes "parts_loop tbl contour img_h img_w ps img_labels = Some img_labels'"
  shows "map box_class img_labels' =
           map box_class img_labels @ concat (map (\<lambda>(i, p). replicate (n_contours tbl p) i) ps)"
  using assms
proof (induction ps arbitrary: img_labels)
  case Nil
  then show ?case by simp
next
  case (Cons ip rest)
  obtain i p where ip: "ip = (i, p)" by (cases ip)
  from Cons.prems ip obtain groups l where
    g: "map_of tbl p = Some groups"
    and cl: "contours_loop contour i img_h img_w groups img_labels = Some l"
    and rec: "parts_loop tbl contour img_h img_w rest l = Some img_labels'"
    by (auto split: option.splits)
  from contours_loop_classes [OF cl] g
  have "map box_class l = map box_class img_labels @ replicate (n_contours tbl p) i"
    by (simp add: n_contours_def)
  with Cons.IH [OF rec] ip show ?case by simp
qed

lemma use_parts_eq: "use_parts = [''eye'', ''nose'', ''mouth'', ''eyebrow'']"
  by (simp add: use_parts_def part_points_helen_def)

lemma enumerate_use_parts:
  "enumerate 0 use_parts = [(0, ''eye''), (1, ''nose''), (2, ''mouth''), (3, ''eyebrow'')]"
  by (simp add: use_parts_eq)

lemma image_labels_classes:
  assumes "image_labels tbl contour img_h img_w = Some img_labels"
  shows "map box_class img_labels =
           replicate (n_contours tbl ''eye'') 0 @ replicate (n_contours tbl ''nose'') 1
           @ replicate (n_contours tbl ''mouth'') 2 @ replicate (n_contours tbl ''eyebrow'') 3"
  using parts_loop_classes [OF assms [unfolded image_labels_def]]
  by (simp add: enumerate_use_parts)

lemma n_contours_adapter:
  "n_contours (adapter_table a) ''eye'' = (if a = Menpo2D_profile then 1 else 2)"
  "n_contours (adapter_table a) ''nose'' = 1"
  "n_contours (adapter_table a) ''mouth'' = 1"
  "n_contours (adapter_table a) ''eyebrow'' = (if a = Menpo2D_profile then 1 else 2)"
  by (cases a; simp add: n_contours_def part_points_helen_def part_points_afw_def
        part_points_lapa_def menpo_table_def part_points_menpo_def)+

lemma those_map_Some:
  assumes "\<forall>x\<in>set xs. f x \<noteq> None"
  shows "those (map f xs) = Some (map (\<lambda>x. the (f x)) xs)"
  using assms by (induction xs) auto

lemma points_to_yolo_ok:
  assumes "c \<noteq> []" and "0 < img_h" and "0 < img_w"
  shows "\<exists>row. points_to_yolo img_labels c part_id img_h img_w = Some (img_labels @ [row], row)"
  using assms by (cases c) (simp_all add: points_to_yolo_def Let_def)

lemma contours_loop_ok:
  assumes "\<forall>idxs\<in>set groups. \<exists>c. contour idxs = Some c \<and> c \<noteq> []"
    and "0 < img_h" and "0 < img_w"
  shows "\<exists>l. contours_loop contour part_id img_h img_w groups img_labels = Some l"
  using assms(1)
proof (induction groups arbitrary: img_labels)
  case Nil
  then show ?case by simp
next
  case (Cons idxs rest)
  then obtain c where c: "contour idxs = Some c" "c \<noteq> []" by auto
  from points_to_yolo_ok [OF c(2) assms(2,3)] obtain row where
    "points_to_yolo img_labels c part_id img_h img_w = Some (img_labels @ [row], row)" by blast
  moreover from Cons.prems have "\<forall>idxs\<in>set rest. \<exists>c. contour idxs = Some c \<and> c \<noteq> []"
    by simp
  from Cons.IH [OF this] obtain l where
    "contours_loop contour part_id img_h img_w rest (img_labels @ [row]) = Some l" by blast
  ultimately show ?case using c by simp
qed

lemma parts_loop_ok:
  assumes "\<forall>ip\<in>set ps. \<exists>groups. map_of tbl (snd ip) = Some groups \<and>
              (\<forall>idxs\<in>set groups. \<exists>c. contour idxs = Some c \<and> c \<noteq> [])"
    and "0 < img_h" and "0 < img_w"
  shows "\<exists>l. parts_loop tbl contour img_h img_w ps img_labels = Some l"
  using assms(1)
proof (induction ps arbitrary: img_labels)
  case Nil
  then show ?case by simp
next
  case (Cons ip rest)
  obtain i p where ip: "ip = (i, p)" by (cases ip)
  from Cons.prems ip obtain groups where g: "map_of tbl p = Some groups"
    and gs: "\<forall>idxs\<in>set groups. \<exists>c. contour idxs = Some c \<and> c \<noteq> []" by auto
  from contours_loop_ok [OF gs assms(2,3)] obtain l where
    l: "contours_loop contour i img_h img_w groups img_labels = Some l" by blast
  from Cons.prems have "\<forall>ip\<in>set rest. \<exists>groups. map_of tbl (snd ip) = Some groups \<and>
              (\<forall>idxs\<in>set groups. \<exists>c. contour idxs = Some c \<and> c \<noteq> [])" by simp
  from Cons.IH [OF this] obtain l' where "parts_loop tbl contour img_h img_w rest l = Some l'"
    by blast
  with g l ip show ?case by simp
qed

lemma lines_contour_ok:
  assumes "idxs \<noteq> []" and "\<forall>i\<in>set idxs. i < length lines"
    and "\<forall>l\<in>set lines. parse_point f sep l \<noteq> None"
  shows "\<exists>c. lines_contour f sep lines idxs = Some c \<and> c \<noteq> []"
proof -
  have "\<forall>i\<in>set idxs. py_index lines i \<noteq> None"
    using assms(2) by (simp add: py_index_def)
  then have 1: "those (map (py_index lines) idxs) = Some (map (\<lambda>i. the (py_index lines i)) idxs)"
    by (rule those_map_Some)
  have "\<forall>p\<in>set (map (\<lambda>i. the (py_index lines i)) idxs). parse_point f sep p \<noteq> None"
    using assms(2,3) by (auto simp: py_index_def)
  then have 2: "those (map (parse_point f sep) (map (\<lambda>i. the (py_index lines i)) idxs))
      = Some (map (\<lambda>p. the (parse_point f sep p)) (map (\<lambda>i. the (py_index lines i)) idxs))"
    by (rule those_map_Some)
  show ?thesis using 1 2 assms(1) by (simp add: lines_contour_def)
qed

lemma menpo_contour_ok:
  assumes "idxs \<noteq> []" and "\<forall>i\<in>set idxs. i < length x_points \<and> i < length y_points"
  shows "\<exists>c. menpo_contour x_points y_points idxs = Some c \<and> c \<noteq> []"
proof -
  have x: "\<forall>i\<in>set idxs. py_index x_points i \<noteq> None"
    and y: "\<forall>i\<in>set idxs. py_index y_points i \<noteq> None"
    using assms(2) by (simp_all add: py_index_def)
  show ?thesis
    using assms(1) by (simp add: menpo_contour_def those_map_Some [OF x] those_map_Some [OF y])
qed

lemma image_labels_lines_ok:
  assumes tbl: "\<forall>p\<in>set use_parts. \<exists>groups. map_of tbl p = Some groups \<and>
                 (\<forall>idxs\<in>set groups. idxs \<noteq> [] \<and> (\<forall>i\<in>set idxs. i < n))"
    and len: "n \<le> length lines"
    and parse: "\<forall>l\<in>set lines. parse_point f sep l \<noteq> None"
    and dims: "0 < img_h" "0 < img_w"
  shows "\<exists>rows. image_labels tbl (lines_contour f sep lines) img_h img_w = Some rows"
  unfolding image_labels_def
proof (rule parts_loop_ok [OF _ dims], rule ballI)
  fix ip assume "ip \<in> set (enumerate 0 use_parts)"
  then have "snd ip \<in> set use_parts"
    by (metis in_set_zipE enumerate_eq_zip prod.collapse)
  with tbl obtain groups where g: "map_of tbl (snd ip) = Some groups"
    and gs: "\<forall>idxs\<in>set groups. idxs \<noteq> [] \<and> (\<forall>i\<in>set idxs. i < n)" by blast
  have "\<forall>idxs\<in>set groups. \<exists>c. lines_contour f sep lines idxs = Some c \<and> c \<noteq> []"
  proof
    fix idxs assume "idxs \<in> set groups"
    with gs len have "idxs \<noteq> []" "\<forall>i\<in>set idxs. i < length lines" by fastforce+
    then show "\<exists>c. lines_contour f sep lines idxs = Some c \<and> c \<noteq> []"
      using parse by (rule lines_contour_ok)
  qed
  with g show "\<exists>groups. map_of tbl (snd ip) = Some groups \<and>
      (\<forall>idxs\<in>set groups. \<exists>c. lines_contour f sep lines idxs = Some c \<and> c \<noteq> [])" by blast
qed

lemma helen_table_ok:
  "\<forall>p\<in>set use_parts. \<exists>groups. map_of part_points_helen p = Some groups \<and>
                 (\<forall>idxs\<in>set groups. idxs \<noteq> [] \<and> (\<forall>i\<in>set idxs. i < 194))"
  by (simp add: use_parts_eq part_points_helen_def)

lemma afw_table_ok:
  "\<forall>p\<in>set use_parts. \<exists>groups. map_of part_points_afw p = Some groups \<and>
                 (\<forall>idxs\<in>set groups. idxs \<noteq> [] \<and> (\<forall>i\<in>set idxs. i < 68))"
  by (simp add: use_parts_eq part_points_afw_def)

lemma lapa_table_ok:
  "\<forall>p\<in>set use_parts. \<exists>groups. map_of part_points_lapa p = Some groups \<and>
                 (\<forall>idxs\<in>set groups. idxs \<noteq> [] \<and> (\<forall>i\<in>set idxs. i < 104))"
  by (simp add: use_parts_eq part_points_lapa_def)

section \<open>Class ids\<close>

lemma example_point_parses:
  "parse_point (float_of example_env) '' '' ''30 40'' = Some (30, 40)"
  "parse_point (float_of example_env) '' '' ''50 80'' = Some (50, 80)"
  "parse_point (float_of example_env) '' , '' ''30 , 40'' = Some (30, 40)"
  "parse_point (float_of example_env) '' , '' ''50 , 80'' = Some (50, 80)"
  by code_simp+

lemma length_alternating: "length (concat (replicate n [a, b])) = 2 * n"
  by (induction n) simp_all

lemma set_alternating: "set (concat (replicate n [a, b])) \<subseteq> {a, b}"
  by (induction n) auto

lemma lapa_example_labels:
  "\<exists>rows. lapa_image_labels example_env (tl lapa_example_landmarks) 480 640 = Some rows"
proof -
  have 1: "104 \<le> length (tl lapa_example_landmarks)"
    by (simp add: lapa_example_landmarks_def length_alternating)
  have "set (tl lapa_example_landmarks) \<subseteq> {''30 40'', ''50 80''}"
    by (simp add: lapa_example_landmarks_def set_alternating)
  then have 2: "\<forall>l\<in>set (tl lapa_example_landmarks). parse_point (float_of example_env) '' '' l \<noteq> None"
    using example_point_parses by auto
  show ?thesis
    unfolding lapa_image_labels_def
    by (rule image_labels_lines_ok [OF lapa_table_ok 1 2]) simp_all
qed

text \<open>
  C2. Every adapter runs its label loop over \<open>enumerate 0 use_parts\<close>, which pairs eye with
  0, nose with 1, mouth with 2 and eyebrow with 3, and \<^verbatim>\<open>data.yaml\<close> lists the same pairs.
  Each adapter's table has the key \<open>jaw\<close>, which is not among \<open>use_parts\<close>. So the rows an
  adapter produces for an image are its eye rows with class 0, then its nose rows with
  class 1, its mouth rows with class 2 and its eyebrow rows with class 3, whatever the order
  of the keys in its table.
\<close>

theorem class_ids_consistent:
  "enumerate 0 use_parts = [(0, ''eye''), (1, ''nose''), (2, ''mouth''), (3, ''eyebrow'')]
   \<and> yaml_names = [(0, ''eye''), (1, ''nose''), (2, ''mouth''), (3, ''eyebrow'')]
   \<and> ''jaw'' \<in> fst ` set (adapter_table a)
   \<and> ''jaw'' \<notin> set use_parts
   \<and> (image_labels (adapter_table a) contour img_h img_w = Some img_labels \<longrightarrow>
        map box_class img_labels =
          replicate (n_contours (adapter_table a) ''eye'') 0
          @ replicate (n_contours (adapter_table a) ''nose'') 1
          @ replicate (n_contours (adapter_table a) ''mouth'') 2
          @ replicate (n_contours (adapter_table a) ''eyebrow'') 3)"
proof (intro conjI impI)
  show "enumerate 0 use_parts = [(0, ''eye''), (1, ''nose''), (2, ''mouth''), (3, ''eyebrow'')]"
    by (rule enumerate_use_parts)
  show "yaml_names = [(0, ''eye''), (1, ''nose''), (2, ''mouth''), (3, ''eyebrow'')]"
    by (simp add: yaml_names_def enumerate_use_parts)
  show "''jaw'' \<in> fst ` set (adapter_table a)"
    by (cases a) (simp_all add: part_points_helen_def part_points_afw_def part_points_lapa_def
        menpo_table_def part_points_menpo_def)
  show "''jaw'' \<notin> set use_parts"
    by (simp add: use_parts_eq)
next
  assume "image_labels (adapter_table a) contour img_h img_w = Some img_labels"
  then show "map box_class img_labels =
          replicate (n_contours (adapter_table a) ''eye'') 0
          @ replicate (n_contours (adapter_table a) ''nose'') 1
          @ replicate (n_contours (adapter_table a) ''mouth'') 2
          @ replicate (n_contours (adapter_table a) ''eyebrow'') 3"
    by (rule image_labels_classes)
qed

theorem class_ids_consistent_witness:
  "\<exists>rows. image_labels (adapter_table LaPa)
      (lines_contour (float_of example_env) '' '' (tl lapa_example_landmarks)) 480 640 = Some rows
     \<and> map box_class rows = [0, 0, 1, 2, 3, 3]"
proof -
  from lapa_example_labels obtain rows where
    r: "image_labels (adapter_table LaPa)
      (lines_contour (float_of example_env) '' '' (tl lapa_example_landmarks)) 480 640 = Some rows"
    unfolding lapa_image_labels_def adapter_table.simps by (rule exE)
  have n: "n_contours (adapter_table LaPa) ''eye'' = 2" "n_contours (adapter_table LaPa) ''nose'' = 1"
    "n_contours (adapter_table LaPa) ''mouth'' = 1" "n_contours (adapter_table LaPa) ''eyebrow'' = 2"
    using n_contours_adapter [of LaPa] by simp_all
  from class_ids_consistent
    [of LaPa "lines_contour (float_of example_env) '' '' (tl lapa_example_landmarks)" 480 640 rows]
  have "map box_class rows =
          replicate (n_contours (adapter_table LaPa) ''eye'') 0
          @ replicate (n_contours (adapter_table LaPa) ''nose'') 1
          @ replicate (n_contours (adapter_table LaPa) ''mouth'') 2
          @ replicate (n_contours (adapter_table LaPa) ''eyebrow'') 3"
    using r by (elim conjE) (erule mp)
  then have c: "map box_class rows = [0, 0, 1, 2, 3, 3]"
    unfolding n by (simp add: numeral_2_eq_2)
  show ?thesis
    by (rule exI [of _ rows]) (rule conjI [OF r c])
qed

section \<open>Rows of a label file\<close>

lemma image_labels_menpo_ok:
  assumes tbl: "\<forall>p\<in>set use_parts. \<exists>groups. map_of tbl p = Some groups \<and>
                 (\<forall>idxs\<in>set groups. idxs \<noteq> [] \<and> (\<forall>i\<in>set idxs. i < n))"
    and len: "n \<le> length x_points" "n \<le> length y_points"
    and dims: "0 < img_h" "0 < img_w"
  shows "\<exists>rows. image_labels tbl (menpo_contour x_points y_points) img_h img_w = Some rows"
  unfolding image_labels_def
proof (rule parts_loop_ok [OF _ dims], rule ballI)
  fix ip assume "ip \<in> set (enumerate 0 use_parts)"
  then have "snd ip \<in> set use_parts"
    by (metis in_set_zipE enumerate_eq_zip prod.collapse)
  with tbl obtain groups where g: "map_of tbl (snd ip) = Some groups"
    and gs: "\<forall>idxs\<in>set groups. idxs \<noteq> [] \<and> (\<forall>i\<in>set idxs. i < n)" by blast
  have "\<forall>idxs\<in>set groups. \<exists>c. menpo_contour x_points y_points idxs = Some c \<and> c \<noteq> []"
  proof
    fix idxs assume "idxs \<in> set groups"
    with gs len have "idxs \<noteq> []" "\<forall>i\<in>set idxs. i < length x_points \<and> i < length y_points"
      by fastforce+
    then show "\<exists>c. menpo_contour x_points y_points idxs = Some c \<and> c \<noteq> []"
      by (rule menpo_contour_ok)
  qed
  with g show "\<exists>groups. map_of tbl (snd ip) = Some groups \<and>
      (\<forall>idxs\<in>set groups. \<exists>c. menpo_contour x_points y_points idxs = Some c \<and> c \<noteq> [])" by blast
qed

lemma profile_table_ok:
  "\<forall>p\<in>set use_parts. \<exists>groups. map_of (menpo_table ''profile'') p = Some groups \<and>
                 (\<forall>idxs\<in>set groups. idxs \<noteq> [] \<and> (\<forall>i\<in>set idxs. i < 39))"
  by (simp add: use_parts_eq menpo_table_def part_points_menpo_def)

lemma menpo_image_labels_eq:
  "menpo_image_labels x_points y_points img_h img_w =
     image_labels (menpo_table (if length x_points = 39 then ''profile'' else ''semifrontal''))
       (menpo_contour x_points y_points) img_h img_w"
  by (simp add: menpo_image_labels_def menpo_table_def part_points_menpo_def)

lemma menpo_table_semifrontal: "menpo_table ''semifrontal'' = part_points_afw"
  by (simp add: menpo_table_def part_points_menpo_def)

lemma helen_image_labels_ok:
  assumes "194 \<le> length lines"
    and "\<forall>l\<in>set lines. parse_point (float_of E) '' , '' l \<noteq> None"
    and "0 < img_h" and "0 < img_w"
  shows "\<exists>rows. helen_image_labels E lines img_h img_w = Some rows"
  unfolding helen_image_labels_def
  by (rule image_labels_lines_ok [OF helen_table_ok assms])

lemma afw_image_labels_ok:
  assumes "68 \<le> length lines"
    and "\<forall>l\<in>set lines. parse_point (float_of E) '' '' l \<noteq> None"
    and "0 < img_h" and "0 < img_w"
  shows "\<exists>rows. afw_image_labels E lines img_h img_w = Some rows"
  unfolding afw_image_labels_def
  by (rule image_labels_lines_ok [OF afw_table_ok assms])

lemma lapa_image_labels_ok:
  assumes "104 \<le> length lines"
    and "\<forall>l\<in>set lines. parse_point (float_of E) '' '' l \<noteq> None"
    and "0 < img_h" and "0 < img_w"
  shows "\<exists>rows. lapa_image_labels E lines img_h img_w = Some rows"
  unfolding lapa_image_labels_def
  by (rule image_labels_lines_ok [OF lapa_table_ok assms])

lemma menpo_image_labels_ok:
  assumes "length x_points = length y_points"
    and "length x_points = 39 \<or> 68 \<le> length x_points"
    and "0 < img_h" and "0 < img_w"
  shows "\<exists>rows. menpo_image_labels x_points y_points img_h img_w = Some rows"
proof (cases "length x_points = 39")
  case True
  with assms(1) have "39 \<le> length x_points" "39 \<le> length y_points" by simp_all
  from image_labels_menpo_ok [OF profile_table_ok this assms(3,4)] True
  show ?thesis by (simp add: menpo_image_labels_eq)
next
  case False
  with assms(1,2) have "68 \<le> length x_points" "68 \<le> length y_points" by simp_all
  from image_labels_menpo_ok [OF afw_table_ok this assms(3,4)] False
  show ?thesis by (simp add: menpo_image_labels_eq menpo_table_semifrontal)
qed

lemma n_contours_tables:
  "n_contours part_points_helen ''eye'' = 2" "n_contours part_points_helen ''nose'' = 1"
  "n_contours part_points_helen ''mouth'' = 1" "n_contours part_points_helen ''eyebrow'' = 2"
  "n_contours part_points_afw ''eye'' = 2" "n_contours part_points_afw ''nose'' = 1"
  "n_contours part_points_afw ''mouth'' = 1" "n_contours part_points_afw ''eyebrow'' = 2"
  "n_contours part_points_lapa ''eye'' = 2" "n_contours part_points_lapa ''nose'' = 1"
  "n_contours part_points_lapa ''mouth'' = 1" "n_contours part_points_lapa ''eyebrow'' = 2"
  "n_contours (menpo_table ''profile'') ''eye'' = 1" "n_contours (menpo_table ''profile'') ''nose'' = 1"
  "n_contours (menpo_table ''profile'') ''mouth'' = 1" "n_contours (menpo_table ''profile'') ''eyebrow'' = 1"
  by (simp_all add: n_contours_def part_points_helen_def part_points_afw_def
        part_points_lapa_def menpo_table_def part_points_menpo_def)

lemma length_to_csv: "length (to_csv E rows) = length rows"
  by (simp add: to_csv_def)

lemma helen_example_labels:
  "\<exists>rows. helen_image_labels example_env helen_example_lines 480 640 = Some rows"
proof -
  have 1: "194 \<le> length helen_example_lines"
    by (simp add: helen_example_lines_def length_alternating)
  have "set helen_example_lines \<subseteq> {''30 , 40'', ''50 , 80''}"
    by (simp add: helen_example_lines_def set_alternating)
  then have 2: "\<forall>l\<in>set helen_example_lines. parse_point (float_of example_env) '' , '' l \<noteq> None"
    using example_point_parses by auto
  show ?thesis
    by (rule helen_image_labels_ok [OF 1 2]) simp_all
qed

lemma afw_example_lines: "drop 3 (butlast (map rstrip afw_example_points)) = concat (replicate 34 [''30 40'', ''50 80''])"
proof -
  have r: "rstrip ''30 40'' = ''30 40''" "rstrip ''50 80'' = ''50 80''"
    "rstrip ''version: 1'' = ''version: 1''" "rstrip ''n_points: 68'' = ''n_points: 68''"
    "rstrip ''{'' = ''{''" "rstrip ''}'' = ''}''"
    by code_simp+
  have "map rstrip (concat (replicate n [''30 40'', ''50 80''])) = concat (replicate n [''30 40'', ''50 80''])" for n
    by (induction n) (simp_all add: r)
  then show ?thesis
    by (simp add: afw_example_points_def r butlast_append)
qed

lemma afw_example_labels:
  "\<exists>rows. afw_image_labels example_env (drop 3 (butlast (map rstrip afw_example_points))) 480 640 = Some rows"
proof -
  have 1: "68 \<le> length (drop 3 (butlast (map rstrip afw_example_points)))"
    unfolding afw_example_lines by (simp add: length_alternating)
  have "set (drop 3 (butlast (map rstrip afw_example_points))) \<subseteq> {''30 40'', ''50 80''}"
    unfolding afw_example_lines by (rule set_alternating)
  then have 2: "\<forall>l\<in>set (drop 3 (butlast (map rstrip afw_example_points))).
      parse_point (float_of example_env) '' '' l \<noteq> None"
    using example_point_parses by auto
  show ?thesis
    by (rule afw_image_labels_ok [OF 1 2]) simp_all
qed

section \<open>The manifests\<close>

text \<open>A line of a manifest stands for one cell only.\<close>

lemma csv_escape_inj:
  assumes "csv_escape s = csv_escape t"
  shows "s = t"
  using assms
proof (induction s arbitrary: t)
  case Nil
  then show ?case by (cases t) (simp_all add: csv_escape_def split: if_splits)
next
  case (Cons a s)
  show ?case
  proof (cases t)
    case Nil
    with Cons.prems show ?thesis by (simp add: csv_escape_def split: if_splits)
  next
    case (Cons b t')
    with Cons.prems have "a = b \<and> csv_escape s = csv_escape t'"
      by (auto simp: csv_escape_def split: if_splits)
    with Cons.IH Cons show ?thesis by simp
  qed
qed

lemma csv_cell_inj:
  assumes "csv_cell E s = csv_cell E t"
  shows "s = t"
proof (cases "list_ex (csv_special E) s"; cases "list_ex (csv_special E) t")
  assume "list_ex (csv_special E) s" "list_ex (csv_special E) t"
  with assms show ?thesis by (simp add: csv_cell_def csv_escape_inj)
next
  assume a: "list_ex (csv_special E) s" "\<not> list_ex (csv_special E) t"
  with assms have "t = CHR 0x22 # csv_escape s @ [CHR 0x22]" by (simp add: csv_cell_def)
  then have "csv_special E (hd t) \<and> t \<noteq> []" by (simp add: csv_special_def)
  then have "list_ex (csv_special E) t" by (cases t) simp_all
  with a show ?thesis by simp
next
  assume a: "\<not> list_ex (csv_special E) s" "list_ex (csv_special E) t"
  with assms have "s = CHR 0x22 # csv_escape t @ [CHR 0x22]" by (simp add: csv_cell_def)
  then have "csv_special E (hd s) \<and> s \<noteq> []" by (simp add: csv_special_def)
  then have "list_ex (csv_special E) s" by (cases s) simp_all
  with a show ?thesis by simp
next
  assume "\<not> list_ex (csv_special E) s" "\<not> list_ex (csv_special E) t"
  with assms show ?thesis by (simp add: csv_cell_def)
qed

lemma rfind_absent:
  assumes "c \<notin> set s"
  shows "rfind s c = - 1"
proof -
  have "filter (\<lambda>i. s ! i = c) (rev [0..<length s]) = []"
    using assms by (auto simp: filter_empty_conv)
  then show ?thesis by (simp add: rfind_def)
qed

lemma rfind_last:
  assumes "c \<notin> set t"
  shows "rfind (x @ c # t) c = int (length x)"
  using assms
proof (induction t rule: rev_induct)
  case Nil
  then show ?case by (simp add: rfind_def)
next
  case (snoc a t)
  then have ih: "rfind (x @ c # t) c = int (length x)" and a: "a \<noteq> c" by auto
  define s where "s = x @ c # t"
  have "filter (\<lambda>i. (s @ [a]) ! i = c) (rev [0..<length s]) = filter (\<lambda>i. s ! i = c) (rev [0..<length s])"
    by (rule filter_cong) (simp_all add: nth_append)
  with a have "rfind (s @ [a]) c = rfind s c"
    by (simp add: rfind_def nth_append)
  then have "rfind (x @ c # t @ [a]) c = rfind (x @ c # t) c"
    by (simp add: s_def)
  with ih show ?case by simp
qed

lemma splitext_add_ext:
  assumes "CHR ''/'' \<notin> set x" and "c \<in> set x" and "c \<noteq> CHR ''.''"
  shows "splitext (x @ ''.jpg'') = (x, ''.jpg'')"
proof -
  have d: "rfind (x @ ''.jpg'') CHR ''.'' = int (length x)"
    using rfind_last [of "CHR ''.''" "''jpg''" x] by simp
  have s: "rfind (x @ ''.jpg'') CHR ''/'' = - 1"
    using assms(1) by (intro rfind_absent) simp
  from assms(2) obtain i where i: "i < length x" "x ! i = c" by (auto simp: in_set_conv_nth)
  with assms(3) have "list_ex (\<lambda>i. (x @ ''.jpg'') ! i \<noteq> CHR ''.'') [0..<length x]"
    by (auto simp: list_ex_iff nth_append)
  then show ?thesis
    by (simp add: splitext_def d s)
qed

lemma process_names_skips:
  assumes skip: "fst (splitext name) \<in> set skip_ids"
    and slash: "CHR ''/'' \<notin> set name" and us: "CHR ''_'' \<in> set name"
    and only: "\<forall>x\<in>set names. fst (splitext x) = fst (splitext name) \<longrightarrow> x = fst (splitext name)"
  shows "csv_cell E (path_join p (path_join ''images'' name)) \<notin> set (fst (process_names E names p skip_ids))"
    and "csv_cell E (path_join p (path_join ''labels'' (fst (splitext name) @ ''.txt'')))
           \<notin> set (snd (process_names E names p skip_ids))"
proof -
  have kept: "fst (splitext x) \<noteq> fst (splitext name)" if "x \<in> set (use_rows names skip_ids)" for x
  proof
    assume e: "fst (splitext x) = fst (splitext name)"
    from that have "x \<in> set names" "x \<notin> set skip_ids" by (simp_all add: use_rows_def)
    with only e skip show False by auto
  qed
  show "csv_cell E (path_join p (path_join ''images'' name)) \<notin> set (fst (process_names E names p skip_ids))"
  proof
    assume "csv_cell E (path_join p (path_join ''images'' name)) \<in> set (fst (process_names E names p skip_ids))"
    then obtain x where x: "x \<in> set (use_rows names skip_ids)"
      and e: "csv_cell E (fill_img_ext p x ''.jpg'') = csv_cell E (path_join p (path_join ''images'' name))"
      by (auto simp: process_names_def use_imgs_def)
    from csv_cell_inj [OF e] have f: "fill_img_ext p x ''.jpg'' = path_join p (path_join ''images'' name)" .
    show False
    proof (cases "snd (splitext x) = []")
      case True
      with f have n: "name = x @ ''.jpg''" by (simp add: fill_img_ext_def path_join_def)
      with slash us have "CHR ''/'' \<notin> set x" "CHR ''_'' \<in> set x" by auto
      from splitext_add_ext [OF this] n have "fst (splitext name) = x" by simp
      moreover from True splitext_append [of x] have "fst (splitext x) = x" by simp
      ultimately show False using kept [OF x] by simp
    next
      case False
      with f have "name = x" by (simp add: fill_img_ext_def path_join_def)
      with kept [OF x] show False by simp
    qed
  qed
  show "csv_cell E (path_join p (path_join ''labels'' (fst (splitext name) @ ''.txt'')))
           \<notin> set (snd (process_names E names p skip_ids))"
  proof
    assume "csv_cell E (path_join p (path_join ''labels'' (fst (splitext name) @ ''.txt'')))
           \<in> set (snd (process_names E names p skip_ids))"
    then obtain x where x: "x \<in> set (use_rows names skip_ids)"
      and e: "csv_cell E (path_join p (path_join ''labels'' (fst (splitext x) @ ''.txt'')))
            = csv_cell E (path_join p (path_join ''labels'' (fst (splitext name) @ ''.txt'')))"
      by (auto simp: process_names_def use_labels_def)
    from csv_cell_inj [OF e] have "fst (splitext x) = fst (splitext name)"
      by (simp add: path_join_def)
    with kept [OF x] show False by simp
  qed
qed

lemma main_manifests:
  assumes "main E T = Some res"
  shows "\<exists>skip train_names test_names helen_writes.
           skip_imgs E T = Some skip \<and> helen_pass E T skip = Some helen_writes
           \<and> name_frames E T = Some (train_names, test_names)
           \<and> train_manifest res
               = process_names E train_names ''Face-Parts-Dataset'' (map (\<lambda>s. fst (splitext s)) skip)
           \<and> val_manifest res
               = process_names E test_names ''Face-Parts-Dataset'' (map (\<lambda>s. fst (splitext s)) skip)"
  using assms unfolding main_def
  by (auto simp: bind_eq_Some_conv Let_def split: prod.splits)

text \<open>The passes over empty folders, and over split files of Menpo2D without a row.\<close>

lemma empty_passes:
  assumes "afw_listing T = []" and "lapa_images T = (\<lambda>s. [])"
    and "fasseg_labels T = []" and "fasseg_splits T = []"
    and "\<And>p. read_lines T (''Menpo2D/'' @ p) = Some []"
  shows "afw_names E T = []" and "afw_pass E T [] = Some []"
    and "menpo_split_data T S s = Some []" and "menpo_pass E T S [] = Some []"
    and "lapa_pass E T split_name = Some []" and "fasseg_pass T = Some []"
    and "lapa_names T split_name = []" and "fasseg_train_names T = []" and "fasseg_val_names T = []"
    and "menpo_names [] = []"
  using assms
  by (simp_all add: afw_names_def afw_images_def glob_def list_of_set_def afw_pass_def
      menpo_split_data_def menpo_pass_def lapa_pass_def lapa_split_images_def fasseg_pass_def
      lapa_names_def fasseg_train_names_def fasseg_val_names_def menpo_names_def path_join_def)

lemma empty_pexels:
  assumes "pexels_sets T = []"
  shows "pexels_pass E T = Some []" and "pexels_names E T = []"
  using assms by (simp_all add: pexels_pass_def pexels_names_def)

lemma shuffle_Nil: "shuffle rand k [] = ([], k)"
  by (simp add: shuffle_def)

section \<open>Helen: images with more than one face\<close>

lemma those_map_SomeD:
  assumes "those (map f xs) = Some ys"
  shows "ys = map (\<lambda>x. the (f x)) xs \<and> (\<forall>x\<in>set xs. f x \<noteq> None)"
  using assms by (induction xs arbitrary: ys) (auto split: option.splits)

lemma img_face_row_name:
  assumes "img_face_row E name = Some r"
  shows "df_img_name r = name" and "first_piece name ''_'' = df_img_id r"
  using assms
  by (auto simp: img_face_row_def first_piece_def split: list.splits)

lemma length_filter_sort: "length (filter P (sort xs)) = length (filter P xs)"
proof -
  have "mset (filter P (sort xs)) = mset (filter P xs)" by simp
  then show ?thesis by (rule mset_eq_length)
qed

lemma imgs_multi_faces_iff:
  "i \<in> set (imgs_multi_faces df) \<longleftrightarrow>
     i \<in> df_img_id ` set df \<and> 1 < length (filter (\<lambda>r. df_img_id r = i) df)"
proof
  assume "i \<in> set (imgs_multi_faces df)"
  then obtain c where "(i, c) \<in> set (face_counts df)" "1 < c"
    by (auto simp: imgs_multi_faces_def)
  then show "i \<in> df_img_id ` set df \<and> 1 < length (filter (\<lambda>r. df_img_id r = i) df)"
    by (auto simp: face_counts_def)
next
  assume a: "i \<in> df_img_id ` set df \<and> 1 < length (filter (\<lambda>r. df_img_id r = i) df)"
  then have "(i, length (filter (\<lambda>r. df_img_id r = i) df)) \<in> set (face_counts df)"
    by (auto simp: face_counts_def)
  with a have "(i, length (filter (\<lambda>r. df_img_id r = i) df))
      \<in> set (filter (\<lambda>(i, face_count). face_count > 1) (face_counts df))"
    by simp
  then have "fst (i, length (filter (\<lambda>r. df_img_id r = i) df))
      \<in> fst ` set (filter (\<lambda>(i, face_count). face_count > 1) (face_counts df))"
    by (rule imageI)
  then show "i \<in> set (imgs_multi_faces df)"
    by (simp add: imgs_multi_faces_def)
qed

lemma img_face_df_rows:
  assumes "img_face_df E T = Some df"
  shows "df = map (\<lambda>n. the (img_face_row E n)) (sort (helen_images T))"
    and "\<forall>n\<in>set (helen_images T). img_face_row E n \<noteq> None"
proof -
  from assms have "those (map (img_face_row E) (sort (helen_images T))) = Some df"
    by (simp add: img_face_df_def split: if_splits)
  from those_map_SomeD [OF this]
  show "df = map (\<lambda>n. the (img_face_row E n)) (sort (helen_images T))"
    and "\<forall>n\<in>set (helen_images T). img_face_row E n \<noteq> None" by simp_all
qed

lemma group_size_df:
  assumes "img_face_df E T = Some df"
  shows "length (filter (\<lambda>r. df_img_id r = i) df) =
         length (filter (\<lambda>m. first_piece m ''_'' = i) (helen_images T))"
proof -
  from img_face_df_rows [OF assms]
  have df: "df = map (\<lambda>n. the (img_face_row E n)) (sort (helen_images T))"
    and ok: "\<forall>n\<in>set (helen_images T). img_face_row E n \<noteq> None" by simp_all
  have "filter ((\<lambda>r. df_img_id r = i) \<circ> (\<lambda>n. the (img_face_row E n))) (sort (helen_images T))
      = filter (\<lambda>m. first_piece m ''_'' = i) (sort (helen_images T))"
  proof (rule filter_cong [OF refl])
    fix n assume "n \<in> set (sort (helen_images T))"
    with ok obtain r where r: "img_face_row E n = Some r" by auto
    from img_face_row_name(2) [OF r] r
    show "((\<lambda>r. df_img_id r = i) \<circ> (\<lambda>n. the (img_face_row E n))) n = (first_piece n ''_'' = i)"
      by simp
  qed
  then show ?thesis
    unfolding df by (simp add: filter_map length_filter_sort)
qed

lemma df_row_of_name:
  assumes df: "img_face_df E T = Some df" and n: "name \<in> set (helen_images T)"
    and r: "img_face_row E name = Some r"
  shows "r \<in> set df"
proof -
  have "name \<in> set (sort (helen_images T))" using n by simp
  then have "the (img_face_row E name) \<in> (\<lambda>n. the (img_face_row E n)) ` set (sort (helen_images T))"
    by (rule imageI)
  then show ?thesis
    unfolding img_face_df_rows(1) [OF df] using r by simp
qed

lemma df_row_unique:
  assumes df: "img_face_df E T = Some df" and r': "r' \<in> set df"
    and r: "img_face_row E (df_img_name r') = Some r"
  shows "r' = r"
proof -
  from r' obtain m where m: "m \<in> set (helen_images T)" "r' = the (img_face_row E m)"
    unfolding img_face_df_rows(1) [OF df] by auto
  with img_face_df_rows(2) [OF df] obtain q where q: "img_face_row E m = Some q" by blast
  from m(2) q have "r' = q" by simp
  with img_face_row_name(1) [OF q] have "df_img_name r' = m" by simp
  with q r \<open>r' = q\<close> show ?thesis by simp
qed

lemma skip_imgs_member:
  assumes df: "img_face_df E T = Some df"
    and n: "name \<in> set (helen_images T)"
    and r: "img_face_row E name = Some r"
  shows "name \<in> set (skip_imgs_of df) \<longleftrightarrow>
     1 < length (filter (\<lambda>m. first_piece m ''_'' = first_piece name ''_'') (helen_images T))
     \<or> 1 < df_face_id r"
proof -
  define P where "P = (\<lambda>q::face_row. first_piece (df_img_name q) ''_'' \<in> set (imgs_multi_faces df) \<or> df_face_id q > 1)"
  have rin: "r \<in> set df" by (rule df_row_of_name [OF df n r])
  have nm: "df_img_name r = name" by (rule img_face_row_name(1) [OF r])
  have "name \<in> set (skip_imgs_of df) \<longleftrightarrow> (\<exists>q\<in>set df. P q \<and> df_img_name q = name)"
    unfolding skip_imgs_of_def P_def by (simp add: image_iff) blast
  also have "\<dots> \<longleftrightarrow> P r"
  proof
    assume "\<exists>q\<in>set df. P q \<and> df_img_name q = name"
    then obtain q where q: "q \<in> set df" "P q" "df_img_name q = name" by blast
    from df_row_unique [OF df q(1)] q(3) r have "q = r" by simp
    with q(2) show "P r" by simp
  next
    assume "P r"
    with rin nm show "\<exists>q\<in>set df. P q \<and> df_img_name q = name" by blast
  qed
  also have "P r \<longleftrightarrow> (1 < length (filter (\<lambda>r'. df_img_id r' = df_img_id r) df) \<or> 1 < df_face_id r)"
    unfolding P_def nm img_face_row_name(2) [OF r] imgs_multi_faces_iff
    using rin by simp
  also have "length (filter (\<lambda>r'. df_img_id r' = df_img_id r) df)
      = length (filter (\<lambda>m. first_piece m ''_'' = first_piece name ''_'') (helen_images T))"
    unfolding img_face_row_name(2) [OF r] by (rule group_size_df [OF df])
  finally show ?thesis .
qed

lemma helen_sample_cases:
  assumes "helen_sample E T skip raw = Some ws"
  shows "(annotated_image raw \<in> set skip \<and> ws = []) \<or>
         (annotated_image raw \<notin> set skip \<and>
          (\<exists>img_h img_w rows.
             imread T (path_join ''Helen-dataset/images'' (annotated_image raw)) = Some (img_h, img_w)
             \<and> helen_image_labels E (tl (map rstrip raw)) img_h img_w = Some rows
             \<and> ws = [CopyImage (path_join ''Helen-dataset/images'' (annotated_image raw))
                      (annotated_image raw),
                    WriteLabel (fst (splitext (annotated_image raw)) @ ''.txt'')
                      (to_csv E rows)]))"
  using assms
  by (auto simp: helen_sample_def annotated_image_def Let_def split: list.splits option.splits if_splits)

lemma helen_sample_copied:
  assumes "helen_sample E T skip raw = Some ws"
  shows "copied_images ws = (if annotated_image raw \<in> set skip then [] else [annotated_image raw])"
  using helen_sample_cases [OF assms] by auto

lemma helen_pass_images:
  assumes "helen_pass E T skip = Some ws"
  shows "copied_images ws = filter (\<lambda>n. n \<notin> set skip) (map annotated_image (helen_annotations T))"
proof -
  from assms have ok: "\<forall>raw\<in>set (helen_annotations T). helen_sample E T skip raw \<noteq> None"
    and ws: "ws = concat (map (\<lambda>raw. the (helen_sample E T skip raw)) (helen_annotations T))"
    by (simp_all add: helen_pass_def for_each_eq split: if_splits)
  have m: "map (\<lambda>raw. copied_images (the (helen_sample E T skip raw))) (helen_annotations T)
      = map (\<lambda>raw. if annotated_image raw \<in> set skip then [] else [annotated_image raw]) (helen_annotations T)"
  proof (rule map_cong [OF refl])
    fix raw assume "raw \<in> set (helen_annotations T)"
    with ok obtain w where w: "helen_sample E T skip raw = Some w" by auto
    from helen_sample_copied [OF w] w
    show "copied_images (the (helen_sample E T skip raw))
        = (if annotated_image raw \<in> set skip then [] else [annotated_image raw])" by simp
  qed
  have "copied_images ws
      = concat (map (\<lambda>raw. copied_images (the (helen_sample E T skip raw))) (helen_annotations T))"
    unfolding ws by (simp add: copied_images_concat comp_def)
  also have "\<dots> = concat (map (\<lambda>raw. if annotated_image raw \<in> set skip then [] else [annotated_image raw])
      (helen_annotations T))"
    by (simp only: m)
  also have "\<dots> = map annotated_image (filter (\<lambda>raw. \<not> annotated_image raw \<in> set skip) (helen_annotations T))"
    by (rule concat_map_if)
  also have "\<dots> = filter (\<lambda>n. n \<notin> set skip) (map annotated_image (helen_annotations T))"
    by (simp add: filter_map comp_def)
  finally show ?thesis .
qed

lemma replace_jpg_face:
  "replace_jpg b ''1.jpg'' = ''1''" "replace_jpg b ''2.jpg'' = ''2''" "replace_jpg b ''3.jpg'' = ''3''"
  by (cases b; simp add: startswith_def)+

lemma ten_splits:
  "py_split ''1_1.jpg'' ''_'' = [''1'', ''1.jpg'']" "py_split ''2_1.jpg'' ''_'' = [''2'', ''1.jpg'']"
  "py_split ''3_1.jpg'' ''_'' = [''3'', ''1.jpg'']" "py_split ''4_1.jpg'' ''_'' = [''4'', ''1.jpg'']"
  "py_split ''5_1.jpg'' ''_'' = [''5'', ''1.jpg'']" "py_split ''6_1.jpg'' ''_'' = [''6'', ''1.jpg'']"
  "py_split ''7_1.jpg'' ''_'' = [''7'', ''1.jpg'']" "py_split ''8_1.jpg'' ''_'' = [''8'', ''1.jpg'']"
  "py_split ''8_2.jpg'' ''_'' = [''8'', ''2.jpg'']" "py_split ''8_3.jpg'' ''_'' = [''8'', ''3.jpg'']"
  by code_simp+

lemma small_ints: "py_int ''1'' = Some 1" "py_int ''2'' = Some 2" "py_int ''3'' = Some 3"
  by code_simp+

lemma small_faces:
  "astype_int ''1'' = Some 1" "astype_int ''2'' = Some 2" "astype_int ''3'' = Some 3"
  by (simp_all add: astype_int_def small_ints)

lemma sort_ten: "sort helen_ten_images = helen_ten_images"
  unfolding helen_ten_images_def by code_simp

lemma ten_rows:
  "img_face_row E ''1_1.jpg'' = Some \<lparr>df_img_name = ''1_1.jpg'', df_img_id = ''1'', df_face_id = 1\<rparr>"
  "img_face_row E ''2_1.jpg'' = Some \<lparr>df_img_name = ''2_1.jpg'', df_img_id = ''2'', df_face_id = 1\<rparr>"
  "img_face_row E ''3_1.jpg'' = Some \<lparr>df_img_name = ''3_1.jpg'', df_img_id = ''3'', df_face_id = 1\<rparr>"
  "img_face_row E ''4_1.jpg'' = Some \<lparr>df_img_name = ''4_1.jpg'', df_img_id = ''4'', df_face_id = 1\<rparr>"
  "img_face_row E ''5_1.jpg'' = Some \<lparr>df_img_name = ''5_1.jpg'', df_img_id = ''5'', df_face_id = 1\<rparr>"
  "img_face_row E ''6_1.jpg'' = Some \<lparr>df_img_name = ''6_1.jpg'', df_img_id = ''6'', df_face_id = 1\<rparr>"
  "img_face_row E ''7_1.jpg'' = Some \<lparr>df_img_name = ''7_1.jpg'', df_img_id = ''7'', df_face_id = 1\<rparr>"
  "img_face_row E ''8_1.jpg'' = Some \<lparr>df_img_name = ''8_1.jpg'', df_img_id = ''8'', df_face_id = 1\<rparr>"
  "img_face_row E ''8_2.jpg'' = Some \<lparr>df_img_name = ''8_2.jpg'', df_img_id = ''8'', df_face_id = 2\<rparr>"
  "img_face_row E ''8_3.jpg'' = Some \<lparr>df_img_name = ''8_3.jpg'', df_img_id = ''8'', df_face_id = 3\<rparr>"
  unfolding img_face_row_def ten_splits
  by (simp_all add: replace_jpg_face small_faces del: replace_jpg.simps)

lemma ten_skip:
  assumes "helen_images T = helen_ten_images"
  shows "skip_imgs E T = Some [''8_1.jpg'', ''8_2.jpg'', ''8_3.jpg'']"
proof -
  have df: "img_face_df E T =
     Some (map (\<lambda>(n, i, f). \<lparr>df_img_name = n, df_img_id = i, df_face_id = f\<rparr>)
       [(''1_1.jpg'', ''1'', 1), (''2_1.jpg'', ''2'', 1), (''3_1.jpg'', ''3'', 1), (''4_1.jpg'', ''4'', 1),
        (''5_1.jpg'', ''5'', 1), (''6_1.jpg'', ''6'', 1), (''7_1.jpg'', ''7'', 1),
        (''8_1.jpg'', ''8'', 1), (''8_2.jpg'', ''8'', 2), (''8_3.jpg'', ''8'', 3)])"
    unfolding img_face_df_def assms sort_ten
    by (simp add: helen_ten_images_def ten_rows)
  have sk: "skip_imgs_of (map (\<lambda>(n, i, f). \<lparr>df_img_name = n, df_img_id = i, df_face_id = f\<rparr>)
       [(''1_1.jpg'', ''1'', 1), (''2_1.jpg'', ''2'', 1), (''3_1.jpg'', ''3'', 1), (''4_1.jpg'', ''4'', 1),
        (''5_1.jpg'', ''5'', 1), (''6_1.jpg'', ''6'', 1), (''7_1.jpg'', ''7'', 1),
        (''8_1.jpg'', ''8'', 1), (''8_2.jpg'', ''8'', 2), (''8_3.jpg'', ''8'', 3)])
      = [''8_1.jpg'', ''8_2.jpg'', ''8_3.jpg'']"
    by code_simp
  show ?thesis
    unfolding skip_imgs_def df by (simp only: option.map sk)
qed

lemma ten_stems:
  "map (\<lambda>s. fst (splitext s)) helen_ten_images =
     [''1_1'', ''2_1'', ''3_1'', ''4_1'', ''5_1'', ''6_1'', ''7_1'', ''8_1'', ''8_2'', ''8_3'']"
  "map (\<lambda>s. fst (splitext s)) [''8_1.jpg'', ''8_2.jpg'', ''8_3.jpg''] = [''8_1'', ''8_2'', ''8_3'']"
  unfolding helen_ten_images_def by code_simp+

lemma ten_use_rows:
  "use_rows (map (\<lambda>s. fst (splitext s)) helen_ten_images)
     (map (\<lambda>s. fst (splitext s)) [''8_1.jpg'', ''8_2.jpg'', ''8_3.jpg''])
   = [''1_1'', ''2_1'', ''3_1'', ''4_1'', ''5_1'', ''6_1'', ''7_1'']"
  unfolding ten_stems by (simp add: use_rows_def)

lemma ten_kept:
  "filter (\<lambda>n. n \<notin> set [''8_1.jpg'', ''8_2.jpg'', ''8_3.jpg'']) helen_ten_images
    = [''1_1.jpg'', ''2_1.jpg'', ''3_1.jpg'', ''4_1.jpg'', ''5_1.jpg'', ''6_1.jpg'', ''7_1.jpg'']"
  by (simp add: helen_ten_images_def)

lemma img_face_row_nonempty:
  assumes "img_face_row E name = Some r"
  shows "name \<noteq> []"
proof
  assume "name = []"
  then have "py_split name ''_'' = [[]]" by (simp add: py_split_def)
  with assms show False by (simp add: img_face_row_def)
qed

lemma helen_sample_skipped:
  assumes "annotated_image raw = name" and "name \<noteq> []" and "name \<in> set skip"
  shows "helen_sample E T skip raw = Some []"
proof (cases "map rstrip raw")
  case Nil
  with assms(1,2) show ?thesis by (simp add: annotated_image_def)
next
  case (Cons first lines)
  with assms(1) have "first @ ''.jpg'' = name" by (simp add: annotated_image_def)
  with Cons assms(3) show ?thesis by (simp add: helen_sample_def)
qed


lemma helen_sample_ok:
  assumes "map rstrip raw = first # lines"
    and "imread T (path_join ''Helen-dataset/images'' (first @ ''.jpg'')) = Some (img_h, img_w)"
    and "helen_image_labels E lines img_h img_w = Some rows"
  shows "helen_sample E T skip raw \<noteq> None"
  using assms by (simp add: helen_sample_def Let_def)

lemma ten_stem_facts:
  "list_all (\<lambda>n. rstrip (fst (splitext n)) = fst (splitext n) \<and> fst (splitext n) @ ''.jpg'' = n)
     helen_ten_images"
  unfolding helen_ten_images_def by code_simp

lemma helen_ten_tree_fields:
  "helen_images helen_ten_tree = helen_ten_images"
  "helen_annotations helen_ten_tree = map (\<lambda>n. fst (splitext n) # helen_example_lines) helen_ten_images"
  "helen_trainnames helen_ten_tree = [''1_1'', ''2_1'', ''3_1'', ''4_1'', ''5_1'', ''8_1'', ''8_2'']"
  "helen_testnames helen_ten_tree = [''6_1'', ''7_1'', ''8_3'']"
  "imread helen_ten_tree (path_join ''Helen-dataset/images'' p) = Some (480, 640)"
  by (simp_all add: helen_ten_tree_def path_join_def startswith_def)

lemma helen_ten_raw:
  assumes "n \<in> set helen_ten_images"
  shows "map rstrip (fst (splitext n) # helen_example_lines) = fst (splitext n) # helen_example_lines"
    and "annotated_image (fst (splitext n) # helen_example_lines) = n"
proof -
  from ten_stem_facts assms
  have r: "rstrip (fst (splitext n)) = fst (splitext n)" and j: "fst (splitext n) @ ''.jpg'' = n"
    by (simp_all add: list_all_iff)
  show "map rstrip (fst (splitext n) # helen_example_lines) = fst (splitext n) # helen_example_lines"
    by (simp add: r rstrip_helen_example)
  then show "annotated_image (fst (splitext n) # helen_example_lines) = n"
    by (simp add: annotated_image_def j)
qed

lemma helen_ten_pass:
  "\<exists>ws. helen_pass example_env helen_ten_tree skip = Some ws"
proof -
  have "helen_sample example_env helen_ten_tree skip raw \<noteq> None"
    if "raw \<in> set (helen_annotations helen_ten_tree)" for raw
  proof -
    from that obtain n where n: "n \<in> set helen_ten_images"
      and raw: "raw = fst (splitext n) # helen_example_lines"
      by (auto simp: helen_ten_tree_fields)
    from helen_example_labels obtain rows where
      rows: "helen_image_labels example_env helen_example_lines 480 640 = Some rows" by (rule exE)
    show ?thesis
      unfolding raw
      by (rule helen_sample_ok [OF helen_ten_raw(1) [OF n] helen_ten_tree_fields(5) rows])
  qed
  then show ?thesis by (simp add: helen_pass_def for_each_eq)
qed

lemma ten_group_of_8:
  "length (filter (\<lambda>m. first_piece m ''_'' = first_piece ''8_2.jpg'' ''_'') helen_ten_images) = 3"
  unfolding helen_ten_images_def by code_simp

lemma img_face_row_underscore:
  assumes "img_face_row E name = Some r"
  shows "CHR ''_'' \<in> set name"
proof (rule ccontr)
  assume n: "CHR ''_'' \<notin> set name"
  have "split_from ''_'' cur s = [rev cur @ s]" if "CHR ''_'' \<notin> set s" for cur s
    using that by (induction s arbitrary: cur) (auto simp: startswith_def)
  with n have "py_split name ''_'' = [name]" by (simp add: py_split_def)
  with assms show False by (simp add: img_face_row_def)
qed

lemma ten_read_names:
  "read_names example_env [''1_1'', ''2_1'', ''3_1'', ''4_1'', ''5_1'', ''8_1'', ''8_2'']
     = Some [''1_1'', ''2_1'', ''3_1'', ''4_1'', ''5_1'', ''8_1'', ''8_2'']"
  "read_names example_env [''6_1'', ''7_1'', ''8_3''] = Some [''6_1'', ''7_1'', ''8_3'']"
  by code_simp+

lemma ten_manifests:
  "process_names example_env [''1_1'', ''2_1'', ''3_1'', ''4_1'', ''5_1'', ''8_1'', ''8_2'']
      ''Face-Parts-Dataset'' [''8_1'', ''8_2'', ''8_3'']
    = ([''Face-Parts-Dataset/images/1_1.jpg'', ''Face-Parts-Dataset/images/2_1.jpg'',
        ''Face-Parts-Dataset/images/3_1.jpg'', ''Face-Parts-Dataset/images/4_1.jpg'',
        ''Face-Parts-Dataset/images/5_1.jpg''],
       [''Face-Parts-Dataset/labels/1_1.txt'', ''Face-Parts-Dataset/labels/2_1.txt'',
        ''Face-Parts-Dataset/labels/3_1.txt'', ''Face-Parts-Dataset/labels/4_1.txt'',
        ''Face-Parts-Dataset/labels/5_1.txt''])"
  "process_names example_env [''6_1'', ''7_1'', ''8_3'']
      ''Face-Parts-Dataset'' [''8_1'', ''8_2'', ''8_3'']
    = ([''Face-Parts-Dataset/images/6_1.jpg'', ''Face-Parts-Dataset/images/7_1.jpg''],
       [''Face-Parts-Dataset/labels/6_1.txt'', ''Face-Parts-Dataset/labels/7_1.txt''])"
  by code_simp+

lemma helen_ten_names:
  "name_frames example_env helen_ten_tree =
     Some ([''1_1'', ''2_1'', ''3_1'', ''4_1'', ''5_1'', ''8_1'', ''8_2''], [''6_1'', ''7_1'', ''8_3''])"
proof -
  have e: "afw_listing helen_ten_tree = []"
    "lapa_images helen_ten_tree = (\<lambda>s. [])" "fasseg_labels helen_ten_tree = []"
    "fasseg_splits helen_ten_tree = []" "\<And>p. read_lines helen_ten_tree (''Menpo2D/'' @ p) = Some []"
    by (simp_all add: helen_ten_tree_def empty_tree_def startswith_def)
  have "pexels_sets helen_ten_tree = []" by (simp add: helen_ten_tree_def empty_tree_def)
  note p = empty_passes [of helen_ten_tree, OF e] empty_pexels [OF this]
  have sh: "shuffled_names example_env helen_ten_tree = ([], [])"
    by (simp add: shuffled_names_def p shuffle_Nil)
  show ?thesis
    by (simp add: name_frames_def p sh helen_ten_tree_fields ten_read_names split_names_def
        train_size_small)
qed

lemma helen_ten_run:
  assumes hw: "helen_pass example_env helen_ten_tree [''8_1.jpg'', ''8_2.jpg'', ''8_3.jpg''] = Some hw"
  shows "main example_env helen_ten_tree =
     Some \<lparr>pool = hw,
       train_manifest =
         ([''Face-Parts-Dataset/images/1_1.jpg'', ''Face-Parts-Dataset/images/2_1.jpg'',
        ''Face-Parts-Dataset/images/3_1.jpg'', ''Face-Parts-Dataset/images/4_1.jpg'',
        ''Face-Parts-Dataset/images/5_1.jpg''],
       [''Face-Parts-Dataset/labels/1_1.txt'', ''Face-Parts-Dataset/labels/2_1.txt'',
        ''Face-Parts-Dataset/labels/3_1.txt'', ''Face-Parts-Dataset/labels/4_1.txt'',
        ''Face-Parts-Dataset/labels/5_1.txt'']),
       val_manifest =
         ([''Face-Parts-Dataset/images/6_1.jpg'', ''Face-Parts-Dataset/images/7_1.jpg''],
       [''Face-Parts-Dataset/labels/6_1.txt'', ''Face-Parts-Dataset/labels/7_1.txt'']),
       data_yaml_names = yaml_names\<rparr>"
proof -
  have e: "afw_listing helen_ten_tree = []"
    "lapa_images helen_ten_tree = (\<lambda>s. [])" "fasseg_labels helen_ten_tree = []"
    "fasseg_splits helen_ten_tree = []" "\<And>p. read_lines helen_ten_tree (''Menpo2D/'' @ p) = Some []"
    by (simp_all add: helen_ten_tree_def empty_tree_def startswith_def)
  have "pexels_sets helen_ten_tree = []" by (simp add: helen_ten_tree_def empty_tree_def)
  note p = empty_passes [of helen_ten_tree, OF e] empty_pexels [OF this]
  have sh: "shuffled_names example_env helen_ten_tree = ([], [])"
    by (simp add: shuffled_names_def p shuffle_Nil)
  have st: "fst (splitext ''8_1.jpg'') = ''8_1''" "fst (splitext ''8_2.jpg'') = ''8_2''"
    "fst (splitext ''8_3.jpg'') = ''8_3''"
    by code_simp+
  show ?thesis
    by (simp add: main_def p sh helen_ten_names hw ten_skip [OF helen_ten_tree_fields(1)] st ten_manifests Let_def)
qed

text \<open>
  C3. Take a run in which the Helen skip list is computed, and an image of the Helen image
  folder whose prefix before the underscore is shared by more than one image of the folder,
  or whose face index is greater than 1. The image is in the skip list; an annotation file
  that names it writes nothing; and a completed Helen pass has not copied it. When the
  names handed to \<^verbatim>\<open>process_names\<close> refer to the image by its identifier only (a name whose
  stem is the identifier is the identifier), neither the line of the image nor the line of
  its label file stands in the two files \<^verbatim>\<open>process_names\<close> writes; so it is for the train
  and the val manifest of a completed run. Every image of a shared prefix meets the
  condition, so the whole group goes, the first face included. For a folder of the ten
  images in which three share the prefix 8, the skip list is those three and a completed
  pass over ten annotation files copies exactly the seven other images; the run on the
  example tree, whose name files list the ten identifiers, leaves seven images in the pool
  and seven lines in the manifests, five for train and two for val.
\<close>

theorem helen_multi_face_excluded:
  "(skip_imgs E T = Some skip \<and> name \<in> set (helen_images T) \<and> img_face_row E name = Some r
      \<and> (1 < length (filter (\<lambda>m. first_piece m ''_'' = first_piece name ''_'') (helen_images T))
           \<or> 1 < df_face_id r)
     \<longrightarrow> name \<in> set skip
       \<and> (annotated_image raw = name \<longrightarrow> helen_sample E T skip raw = Some [])
       \<and> (helen_pass E T skip = Some ws \<longrightarrow> name \<notin> set (copied_images ws))
       \<and> (CHR ''/'' \<notin> set name
            \<and> (\<forall>x\<in>set names. fst (splitext x) = fst (splitext name) \<longrightarrow> x = fst (splitext name))
          \<longrightarrow> csv_cell E (path_join p (path_join ''images'' name))
                \<notin> set (fst (process_names E names p (map (\<lambda>s. fst (splitext s)) skip)))
            \<and> csv_cell E (path_join p (path_join ''labels'' (fst (splitext name) @ ''.txt'')))
                \<notin> set (snd (process_names E names p (map (\<lambda>s. fst (splitext s)) skip))))
       \<and> (main E T = Some res \<and> name_frames E T = Some (train_names, test_names)
            \<and> CHR ''/'' \<notin> set name
            \<and> (\<forall>x\<in>set (train_names @ test_names).
                  fst (splitext x) = fst (splitext name) \<longrightarrow> x = fst (splitext name))
          \<longrightarrow> csv_cell E (path_join ''Face-Parts-Dataset'' (path_join ''images'' name))
                \<notin> set (fst (train_manifest res)) \<union> set (fst (val_manifest res))
            \<and> csv_cell E (path_join ''Face-Parts-Dataset''
                           (path_join ''labels'' (fst (splitext name) @ ''.txt'')))
                \<notin> set (snd (train_manifest res)) \<union> set (snd (val_manifest res))))
   \<and> (helen_images T = helen_ten_images
     \<longrightarrow> skip_imgs E T = Some [''8_1.jpg'', ''8_2.jpg'', ''8_3.jpg'']
       \<and> (map annotated_image (helen_annotations T) = helen_ten_images
            \<and> helen_pass E T [''8_1.jpg'', ''8_2.jpg'', ''8_3.jpg''] = Some ws
          \<longrightarrow> copied_images ws
              = [''1_1.jpg'', ''2_1.jpg'', ''3_1.jpg'', ''4_1.jpg'', ''5_1.jpg'', ''6_1.jpg'', ''7_1.jpg'']
            \<and> length (copied_images ws) = 7))
   \<and> (\<exists>run. main example_env helen_ten_tree = Some run
        \<and> copied_images (pool run)
            = [''1_1.jpg'', ''2_1.jpg'', ''3_1.jpg'', ''4_1.jpg'', ''5_1.jpg'', ''6_1.jpg'', ''7_1.jpg'']
        \<and> train_manifest run
            = ([''Face-Parts-Dataset/images/1_1.jpg'', ''Face-Parts-Dataset/images/2_1.jpg'',
                ''Face-Parts-Dataset/images/3_1.jpg'', ''Face-Parts-Dataset/images/4_1.jpg'',
                ''Face-Parts-Dataset/images/5_1.jpg''],
               [''Face-Parts-Dataset/labels/1_1.txt'', ''Face-Parts-Dataset/labels/2_1.txt'',
                ''Face-Parts-Dataset/labels/3_1.txt'', ''Face-Parts-Dataset/labels/4_1.txt'',
                ''Face-Parts-Dataset/labels/5_1.txt''])
        \<and> val_manifest run
            = ([''Face-Parts-Dataset/images/6_1.jpg'', ''Face-Parts-Dataset/images/7_1.jpg''],
               [''Face-Parts-Dataset/labels/6_1.txt'', ''Face-Parts-Dataset/labels/7_1.txt''])
        \<and> length (fst (train_manifest run)) + length (fst (val_manifest run)) = 7)"
proof (intro conjI impI)
  assume a: "skip_imgs E T = Some skip \<and> name \<in> set (helen_images T) \<and> img_face_row E name = Some r
      \<and> (1 < length (filter (\<lambda>m. first_piece m ''_'' = first_piece name ''_'') (helen_images T))
           \<or> 1 < df_face_id r)"
  then obtain df where df: "img_face_df E T = Some df" and skip: "skip = skip_imgs_of df"
    by (auto simp: skip_imgs_def)
  from a have sk: "skip_imgs E T = Some skip" and n: "name \<in> set (helen_images T)"
    and r: "img_face_row E name = Some r" by simp_all
  from skip_imgs_member [OF df n r] a skip
  show in_skip: "name \<in> set skip" by simp
  then have stem: "fst (splitext name) \<in> set (map (\<lambda>s. fst (splitext s)) skip)" by simp
  note us = img_face_row_underscore [OF r]
  show "helen_sample E T skip raw = Some []" if "annotated_image raw = name"
    using that img_face_row_nonempty [OF r] in_skip by (rule helen_sample_skipped)
  show "name \<notin> set (copied_images ws)" if "helen_pass E T skip = Some ws"
    using helen_pass_images [OF that] in_skip by simp
  {
    assume h: "CHR ''/'' \<notin> set name
       \<and> (\<forall>x\<in>set names. fst (splitext x) = fst (splitext name) \<longrightarrow> x = fst (splitext name))"
    then have sl: "CHR ''/'' \<notin> set name"
      and only: "\<forall>x\<in>set names. fst (splitext x) = fst (splitext name) \<longrightarrow> x = fst (splitext name)"
      by simp_all
    show "csv_cell E (path_join p (path_join ''images'' name))
                \<notin> set (fst (process_names E names p (map (\<lambda>s. fst (splitext s)) skip)))"
      by (rule process_names_skips(1) [OF stem sl us only])
    show "csv_cell E (path_join p (path_join ''labels'' (fst (splitext name) @ ''.txt'')))
                \<notin> set (snd (process_names E names p (map (\<lambda>s. fst (splitext s)) skip)))"
      by (rule process_names_skips(2) [OF stem sl us only])
  }
  {
    assume h: "main E T = Some res \<and> name_frames E T = Some (train_names, test_names)
            \<and> CHR ''/'' \<notin> set name
            \<and> (\<forall>x\<in>set (train_names @ test_names).
                  fst (splitext x) = fst (splitext name) \<longrightarrow> x = fst (splitext name))"
    then have sl: "CHR ''/'' \<notin> set name"
      and tr: "\<forall>x\<in>set train_names. fst (splitext x) = fst (splitext name) \<longrightarrow> x = fst (splitext name)"
      and te: "\<forall>x\<in>set test_names. fst (splitext x) = fst (splitext name) \<longrightarrow> x = fst (splitext name)"
      by simp_all
    from h main_manifests [of E T res] sk
    have m: "train_manifest res
               = process_names E train_names ''Face-Parts-Dataset'' (map (\<lambda>s. fst (splitext s)) skip)"
      "val_manifest res
               = process_names E test_names ''Face-Parts-Dataset'' (map (\<lambda>s. fst (splitext s)) skip)"
      by auto
    show "csv_cell E (path_join ''Face-Parts-Dataset'' (path_join ''images'' name))
                \<notin> set (fst (train_manifest res)) \<union> set (fst (val_manifest res))"
      unfolding m
      using process_names_skips(1) [OF stem sl us tr] process_names_skips(1) [OF stem sl us te]
      by simp
    show "csv_cell E (path_join ''Face-Parts-Dataset''
                           (path_join ''labels'' (fst (splitext name) @ ''.txt'')))
                \<notin> set (snd (train_manifest res)) \<union> set (snd (val_manifest res))"
      unfolding m
      using process_names_skips(2) [OF stem sl us tr] process_names_skips(2) [OF stem sl us te]
      by simp
  }
next
  assume t: "helen_images T = helen_ten_images"
  then show "skip_imgs E T = Some [''8_1.jpg'', ''8_2.jpg'', ''8_3.jpg'']" by (rule ten_skip)
  assume p: "map annotated_image (helen_annotations T) = helen_ten_images
            \<and> helen_pass E T [''8_1.jpg'', ''8_2.jpg'', ''8_3.jpg''] = Some ws"
  then have "copied_images ws
     = filter (\<lambda>n. n \<notin> set [''8_1.jpg'', ''8_2.jpg'', ''8_3.jpg'']) helen_ten_images"
    using helen_pass_images [of E T "[''8_1.jpg'', ''8_2.jpg'', ''8_3.jpg'']" ws] by simp
  then show c: "copied_images ws
              = [''1_1.jpg'', ''2_1.jpg'', ''3_1.jpg'', ''4_1.jpg'', ''5_1.jpg'', ''6_1.jpg'', ''7_1.jpg'']"
    by (simp only: ten_kept)
  show "length (copied_images ws) = 7" unfolding c by simp
next
  from helen_ten_pass obtain hw where
    hw: "helen_pass example_env helen_ten_tree [''8_1.jpg'', ''8_2.jpg'', ''8_3.jpg''] = Some hw"
    by (rule exE)
  have anns: "map annotated_image (helen_annotations helen_ten_tree) = helen_ten_images"
    using helen_ten_raw(2) by (simp add: helen_ten_tree_fields comp_def map_idI)
  have "copied_images hw
     = filter (\<lambda>n. n \<notin> set [''8_1.jpg'', ''8_2.jpg'', ''8_3.jpg'']) helen_ten_images"
    using helen_pass_images [OF hw] anns by simp
  then have c: "copied_images hw
      = [''1_1.jpg'', ''2_1.jpg'', ''3_1.jpg'', ''4_1.jpg'', ''5_1.jpg'', ''6_1.jpg'', ''7_1.jpg'']"
    by (simp only: ten_kept)
  show "\<exists>run. main example_env helen_ten_tree = Some run
        \<and> copied_images (pool run)
            = [''1_1.jpg'', ''2_1.jpg'', ''3_1.jpg'', ''4_1.jpg'', ''5_1.jpg'', ''6_1.jpg'', ''7_1.jpg'']
        \<and> train_manifest run
            = ([''Face-Parts-Dataset/images/1_1.jpg'', ''Face-Parts-Dataset/images/2_1.jpg'',
                ''Face-Parts-Dataset/images/3_1.jpg'', ''Face-Parts-Dataset/images/4_1.jpg'',
                ''Face-Parts-Dataset/images/5_1.jpg''],
               [''Face-Parts-Dataset/labels/1_1.txt'', ''Face-Parts-Dataset/labels/2_1.txt'',
                ''Face-Parts-Dataset/labels/3_1.txt'', ''Face-Parts-Dataset/labels/4_1.txt'',
                ''Face-Parts-Dataset/labels/5_1.txt''])
        \<and> val_manifest run
            = ([''Face-Parts-Dataset/images/6_1.jpg'', ''Face-Parts-Dataset/images/7_1.jpg''],
               [''Face-Parts-Dataset/labels/6_1.txt'', ''Face-Parts-Dataset/labels/7_1.txt''])
        \<and> length (fst (train_manifest run)) + length (fst (val_manifest run)) = 7"
    unfolding helen_ten_run [OF hw] by (simp add: c)
qed

theorem helen_multi_face_excluded_witness:
  "skip_imgs example_env helen_ten_tree = Some [''8_1.jpg'', ''8_2.jpg'', ''8_3.jpg'']
   \<and> helen_sample example_env helen_ten_tree [''8_1.jpg'', ''8_2.jpg'', ''8_3.jpg'']
        (''8_2'' # helen_example_lines) = Some []
   \<and> (\<exists>ws. helen_pass example_env helen_ten_tree [''8_1.jpg'', ''8_2.jpg'', ''8_3.jpg''] = Some ws
         \<and> ''8_2.jpg'' \<notin> set (copied_images ws)
         \<and> copied_images ws
             = [''1_1.jpg'', ''2_1.jpg'', ''3_1.jpg'', ''4_1.jpg'', ''5_1.jpg'', ''6_1.jpg'', ''7_1.jpg'']
         \<and> length (copied_images ws) = 7)
   \<and> (\<exists>run. main example_env helen_ten_tree = Some run
         \<and> ''Face-Parts-Dataset/images/8_2.jpg''
              \<notin> set (fst (train_manifest run)) \<union> set (fst (val_manifest run))
         \<and> ''Face-Parts-Dataset/labels/8_2.txt''
              \<notin> set (snd (train_manifest run)) \<union> set (snd (val_manifest run))
         \<and> length (fst (train_manifest run)) + length (fst (val_manifest run)) = 7)"
proof -
  let ?skip = "[''8_1.jpg'', ''8_2.jpg'', ''8_3.jpg'']"
  let ?train = "[''1_1'', ''2_1'', ''3_1'', ''4_1'', ''5_1'', ''8_1'', ''8_2'']"
  let ?test = "[''6_1'', ''7_1'', ''8_3'']"
  from helen_ten_pass obtain ws where
    ws: "helen_pass example_env helen_ten_tree ?skip = Some ws" by (rule exE)
  note run = helen_ten_run [OF ws]
  have sk: "skip_imgs example_env helen_ten_tree = Some ?skip"
    by (rule ten_skip [OF helen_ten_tree_fields(1)])
  have n: "''8_2.jpg'' \<in> set (helen_images helen_ten_tree)"
    by (simp add: helen_ten_tree_fields helen_ten_images_def)
  have g: "1 < length (filter (\<lambda>m. first_piece m ''_'' = first_piece ''8_2.jpg'' ''_'')
              (helen_images helen_ten_tree))"
    by (simp add: helen_ten_tree_fields ten_group_of_8)
  have stem: "fst (splitext ''8_2.jpg'') = ''8_2''" by code_simp
  have ann: "annotated_image (''8_2'' # helen_example_lines) = ''8_2.jpg''"
    using helen_ten_raw(2) [of "''8_2.jpg''"] by (simp add: stem helen_ten_images_def)
  have anns: "map annotated_image (helen_annotations helen_ten_tree) = helen_ten_images"
    using helen_ten_raw(2) by (simp add: helen_ten_tree_fields comp_def map_idI)
  note nf = helen_ten_names
  have ids: "list_all (\<lambda>x. fst (splitext x) = x) (?train @ ?test)" by code_simp
  then have only: "\<forall>x\<in>set (?train @ ?test).
      fst (splitext x) = fst (splitext ''8_2.jpg'') \<longrightarrow> x = fst (splitext ''8_2.jpg'')"
    unfolding list_all_iff by (simp add: stem)
  have sl: "CHR ''/'' \<notin> set ''8_2.jpg''" by simp
  have cells: "csv_cell example_env ''Face-Parts-Dataset/images/8_2.jpg''
                 = ''Face-Parts-Dataset/images/8_2.jpg''"
    "csv_cell example_env ''Face-Parts-Dataset/labels/8_2.txt''
                 = ''Face-Parts-Dataset/labels/8_2.txt''"
    by code_simp+
  note inst = helen_multi_face_excluded [where E = example_env and T = helen_ten_tree
      and skip = ?skip and name = "''8_2.jpg''" and raw = "''8_2'' # helen_example_lines"
      and ws = ws and res = "the (main example_env helen_ten_tree)"
      and train_names = ?train and test_names = ?test
      and r = "\<lparr>df_img_name = ''8_2.jpg'', df_img_id = ''8'', df_face_id = 2\<rparr>"]
  have pre: "skip_imgs example_env helen_ten_tree = Some ?skip
      \<and> ''8_2.jpg'' \<in> set (helen_images helen_ten_tree)
      \<and> img_face_row example_env ''8_2.jpg''
          = Some \<lparr>df_img_name = ''8_2.jpg'', df_img_id = ''8'', df_face_id = 2\<rparr>
      \<and> (1 < length (filter (\<lambda>m. first_piece m ''_'' = first_piece ''8_2.jpg'' ''_'')
                (helen_images helen_ten_tree))
           \<or> 1 < df_face_id \<lparr>df_img_name = ''8_2.jpg'', df_img_id = ''8'', df_face_id = 2\<rparr>)"
    using sk n g ten_rows(9) [of example_env] by simp
  note gen = inst [THEN conjunct1, rule_format, OF pre]
  have 1: "helen_sample example_env helen_ten_tree ?skip (''8_2'' # helen_example_lines) = Some []"
    using gen [THEN conjunct2, THEN conjunct1] ann by simp
  have 2: "''8_2.jpg'' \<notin> set (copied_images ws)"
    using gen [THEN conjunct2, THEN conjunct2, THEN conjunct1] ws by simp
  have m: "main example_env helen_ten_tree = Some (the (main example_env helen_ten_tree))"
    by (simp add: run)
  have 3: "''Face-Parts-Dataset/images/8_2.jpg''
              \<notin> set (fst (train_manifest (the (main example_env helen_ten_tree))))
                \<union> set (fst (val_manifest (the (main example_env helen_ten_tree))))
         \<and> ''Face-Parts-Dataset/labels/8_2.txt''
              \<notin> set (snd (train_manifest (the (main example_env helen_ten_tree))))
                \<union> set (snd (val_manifest (the (main example_env helen_ten_tree))))"
    using gen [THEN conjunct2, THEN conjunct2, THEN conjunct2, THEN conjunct2, rule_format,
        OF conjI [OF m conjI [OF nf conjI [OF sl only]]]]
    by (simp only: path_join_def stem append.simps cells simp_thms)
  have 4: "copied_images ws
             = [''1_1.jpg'', ''2_1.jpg'', ''3_1.jpg'', ''4_1.jpg'', ''5_1.jpg'', ''6_1.jpg'', ''7_1.jpg'']
         \<and> length (copied_images ws) = 7"
    using inst [THEN conjunct2, THEN conjunct1, rule_format, OF helen_ten_tree_fields(1),
        THEN conjunct2, rule_format, OF conjI [OF anns ws]] .
  have 5: "length (fst (train_manifest (the (main example_env helen_ten_tree))))
         + length (fst (val_manifest (the (main example_env helen_ten_tree)))) = 7"
    by (simp add: run)
  from sk 1 2 3 4 5 ws m show ?thesis by blast
qed

section \<open>LaPa: cross-listed training images\<close>













section \<open>Names of the output files\<close>












section \<open>The random split\<close>


















section \<open>AFW: the faces of one base name\<close>

lemma afw_faces_loop_step:
  assumes "afw_faces_loop E T n grouped_points dims ((i, img_name) # rest) = Some ws"
  shows "\<exists>pts raw img_h img_w rows ws'.
      py_index grouped_points i = Some pts
      \<and> read_lines T (path_join ''AFW-dataset'' pts) = Some raw
      \<and> (if i = 0 then imread T (path_join ''AFW-dataset'' img_name) else dims) = Some (img_h, img_w)
      \<and> afw_image_labels E (drop 3 (butlast (map rstrip raw))) img_h img_w = Some rows
      \<and> afw_faces_loop E T n grouped_points
            (if i = 0 then imread T (path_join ''AFW-dataset'' img_name) else dims) rest = Some ws'
      \<and> ws = CopyImage (path_join ''AFW-dataset'' img_name) (n @ ''.jpg'')
             # WriteLabel (n @ ''.txt'') (to_csv E rows) # ws'"
proof (cases "i = 0")
  case True
  with assms show ?thesis
    by (auto simp: Let_def split: option.splits)
next
  case False
  with assms show ?thesis
    by (auto simp: Let_def split: option.splits)
qed

lemma afw_faces_loop_dests:
  assumes "afw_faces_loop E T n grouped_points dims items = Some ws"
  shows "copied_images ws = replicate (length items) (n @ ''.jpg'')
       \<and> written_labels ws = replicate (length items) (n @ ''.txt'')"
  using assms
proof (induction items arbitrary: dims ws)
  case Nil
  then show ?case by simp
next
  case (Cons x rest)
  obtain i img_name where x: "x = (i, img_name)" by (cases x)
  from afw_faces_loop_step [OF Cons.prems [unfolded x]] obtain rows ws' where
    rec: "afw_faces_loop E T n grouped_points
            (if i = 0 then imread T (path_join ''AFW-dataset'' img_name) else dims) rest = Some ws'"
    and ws: "ws = CopyImage (path_join ''AFW-dataset'' img_name) (n @ ''.jpg'')
             # WriteLabel (n @ ''.txt'') (to_csv E rows) # ws'"
    by blast
  from Cons.IH [OF rec] show ?case by (simp add: ws)
qed

lemma afw_faces_loop_each:
  assumes "afw_faces_loop E T n grouped_points dims items = Some ws"
    and "(i, img_name) \<in> set items"
  shows "\<exists>pts raw img_h img_w rows.
      py_index grouped_points i = Some pts
      \<and> read_lines T (path_join ''AFW-dataset'' pts) = Some raw
      \<and> afw_image_labels E (drop 3 (butlast (map rstrip raw))) img_h img_w = Some rows
      \<and> WriteLabel (n @ ''.txt'') (to_csv E rows) \<in> set ws"
  using assms
proof (induction items arbitrary: dims ws)
  case Nil
  then show ?case by simp
next
  case (Cons x rest)
  obtain j img where x: "x = (j, img)" by (cases x)
  from afw_faces_loop_step [OF Cons.prems(1) [unfolded x]] obtain pts raw img_h img_w rows ws' where
    s: "py_index grouped_points j = Some pts"
      "read_lines T (path_join ''AFW-dataset'' pts) = Some raw"
      "afw_image_labels E (drop 3 (butlast (map rstrip raw))) img_h img_w = Some rows"
    and rec: "afw_faces_loop E T n grouped_points
            (if j = 0 then imread T (path_join ''AFW-dataset'' img) else dims) rest = Some ws'"
    and ws: "ws = CopyImage (path_join ''AFW-dataset'' img) (n @ ''.jpg'')
             # WriteLabel (n @ ''.txt'') (to_csv E rows) # ws'"
    by blast
  show ?case
  proof (cases "(i, img_name) = x")
    case True
    with x s ws show ?thesis by auto
  next
    case False
    with Cons.prems(2) have "(i, img_name) \<in> set rest" by simp
    from Cons.IH [OF rec this] obtain p r h w rs where
      a: "py_index grouped_points i = Some p"
        "read_lines T (path_join ''AFW-dataset'' p) = Some r"
        "afw_image_labels E (drop 3 (butlast (map rstrip r))) h w = Some rs"
        "WriteLabel (n @ ''.txt'') (to_csv E rs) \<in> set ws'"
      by blast
    from a(4) have "WriteLabel (n @ ''.txt'') (to_csv E rs) \<in> set ws"
      by (simp add: ws)
    with a(1-3) show ?thesis by blast
  qed
qed

lemma afw_faces_loop_last:
  assumes "afw_faces_loop E T n grouped_points dims items = Some ws" and "items \<noteq> []"
  shows "\<exists>front pts raw img_h img_w rows.
      ws = front @ [CopyImage (path_join ''AFW-dataset'' (snd (last items))) (n @ ''.jpg''),
                    WriteLabel (n @ ''.txt'') (to_csv E rows)]
      \<and> py_index grouped_points (fst (last items)) = Some pts
      \<and> read_lines T (path_join ''AFW-dataset'' pts) = Some raw
      \<and> foldl (\<lambda>d (i, img). if i = 0 then imread T (path_join ''AFW-dataset'' img) else d) dims items
          = Some (img_h, img_w)
      \<and> afw_image_labels E (drop 3 (butlast (map rstrip raw))) img_h img_w = Some rows"
  using assms
proof (induction items arbitrary: dims ws)
  case Nil
  then show ?case by simp
next
  case (Cons x rest)
  obtain i img_name where x: "x = (i, img_name)" by (cases x)
  let ?dims' = "if i = 0 then imread T (path_join ''AFW-dataset'' img_name) else dims"
  from afw_faces_loop_step [OF Cons.prems(1) [unfolded x]] obtain pts raw img_h img_w rows ws' where
    s: "py_index grouped_points i = Some pts"
      "read_lines T (path_join ''AFW-dataset'' pts) = Some raw"
      "?dims' = Some (img_h, img_w)"
      "afw_image_labels E (drop 3 (butlast (map rstrip raw))) img_h img_w = Some rows"
    and rec: "afw_faces_loop E T n grouped_points ?dims' rest = Some ws'"
    and ws: "ws = CopyImage (path_join ''AFW-dataset'' img_name) (n @ ''.jpg'')
             # WriteLabel (n @ ''.txt'') (to_csv E rows) # ws'"
    by blast
  show ?case
  proof (cases rest)
    case Nil
    with rec have "ws' = []" by simp
    with ws have "ws = [] @ [CopyImage (path_join ''AFW-dataset'' img_name) (n @ ''.jpg''),
                    WriteLabel (n @ ''.txt'') (to_csv E rows)]" by simp
    with s Nil x show ?thesis by (auto simp del: append_Nil)
  next
    case (Cons y ys)
    then have ne: "rest \<noteq> []" by simp
    from Cons.IH [OF rec ne] obtain front pts' raw' h' w' rows' where
      l: "ws' = front @ [CopyImage (path_join ''AFW-dataset'' (snd (last rest))) (n @ ''.jpg''),
                    WriteLabel (n @ ''.txt'') (to_csv E rows')]"
        "py_index grouped_points (fst (last rest)) = Some pts'"
        "read_lines T (path_join ''AFW-dataset'' pts') = Some raw'"
        "foldl (\<lambda>d (i, img). if i = 0 then imread T (path_join ''AFW-dataset'' img) else d) ?dims' rest
          = Some (h', w')"
        "afw_image_labels E (drop 3 (butlast (map rstrip raw'))) h' w' = Some rows'"
      by blast
    have "ws = (CopyImage (path_join ''AFW-dataset'' img_name) (n @ ''.jpg'')
             # WriteLabel (n @ ''.txt'') (to_csv E rows) # front)
           @ [CopyImage (path_join ''AFW-dataset'' (snd (last rest))) (n @ ''.jpg''),
              WriteLabel (n @ ''.txt'') (to_csv E rows')]"
      using ws l(1) by simp
    with l(2-5) ne x show ?thesis
      by (intro exI [of _ "CopyImage (path_join ''AFW-dataset'' img_name) (n @ ''.jpg'')
             # WriteLabel (n @ ''.txt'') (to_csv E rows) # front"]
          exI [of _ pts'] exI [of _ raw'] exI [of _ h'] exI [of _ w'] exI [of _ rows']) simp
  qed
qed

lemma foldl_dims_later:
  "foldl (\<lambda>d (i, img). if i = 0 then f img else d) dims (enumerate (Suc k) xs) = dims"
  by (induction xs arbitrary: k) simp_all

lemma last_enumerate:
  assumes "xs \<noteq> []"
  shows "last (enumerate k xs) = (k + length xs - 1, last xs)"
  using assms by (induction xs arbitrary: k) (auto simp: neq_Nil_conv)

lemma final_writes_last:
  "final_image (front @ [CopyImage src dest, WriteLabel dest' text]) dest = Some (CopyImage src dest)"
  "final_label (front @ [CopyImage src dest, WriteLabel dest' text]) dest' = Some (WriteLabel dest' text)"
  by (simp_all add: final_image_def final_label_def)

lemma afw_example_lines2:
  "drop 3 (butlast (map rstrip afw_example_points2)) = concat (replicate 34 [''10 20'', ''30 60''])"
proof -
  have r: "rstrip ''10 20'' = ''10 20''" "rstrip ''30 60'' = ''30 60''"
    "rstrip ''version: 1'' = ''version: 1''" "rstrip ''n_points: 68'' = ''n_points: 68''"
    "rstrip ''{'' = ''{''" "rstrip ''}'' = ''}''"
    by code_simp+
  show ?thesis
    by (simp add: afw_example_points2_def r butlast_append rstrip_alternating)
qed

lemma example_point_parses2:
  "parse_point (float_of example_env) '' '' ''10 20'' = Some (10, 20)"
  "parse_point (float_of example_env) '' '' ''30 60'' = Some (30, 60)"
  by code_simp+

lemma afw_example_labels2:
  "\<exists>rows. afw_image_labels example_env (drop 3 (butlast (map rstrip afw_example_points2))) 480 640 = Some rows"
proof -
  have 1: "68 \<le> length (drop 3 (butlast (map rstrip afw_example_points2)))"
    unfolding afw_example_lines2 by (simp add: length_alternating)
  have "set (drop 3 (butlast (map rstrip afw_example_points2))) \<subseteq> {''10 20'', ''30 60''}"
    unfolding afw_example_lines2 by (rule set_alternating)
  then have 2: "\<forall>l\<in>set (drop 3 (butlast (map rstrip afw_example_points2))).
      parse_point (float_of example_env) '' '' l \<noteq> None"
    using example_point_parses2 by auto
  show ?thesis
    by (rule afw_image_labels_ok [OF 1 2]) simp_all
qed

lemma two_faces_globs:
  "glob (afw_listing afw_two_faces_tree) ''1'' ''.jpg'' = [''1_1.jpg'', ''1_2.jpg'']"
  "glob (afw_listing afw_two_faces_tree) ''1'' ''.pts'' = [''1_1.pts'', ''1_2.pts'']"
  unfolding afw_two_faces_tree_def empty_tree_def by code_simp+

lemma two_faces_files:
  "read_lines afw_two_faces_tree ''AFW-dataset/1_1.pts'' = Some afw_example_points"
  "read_lines afw_two_faces_tree ''AFW-dataset/1_2.pts'' = Some afw_example_points2"
  "imread afw_two_faces_tree ''AFW-dataset/1_1.jpg'' = Some (480, 640)"
  "imread afw_two_faces_tree ''AFW-dataset/1_2.jpg'' = Some (480, 640)"
  by (simp_all add: afw_two_faces_tree_def)

lemma two_faces_group:
  "\<exists>rows1 rows2.
     afw_image_labels example_env (drop 3 (butlast (map rstrip afw_example_points))) 480 640 = Some rows1
     \<and> afw_image_labels example_env (drop 3 (butlast (map rstrip afw_example_points2))) 480 640 = Some rows2
     \<and> afw_group example_env afw_two_faces_tree ''1'' =
         Some [CopyImage ''AFW-dataset/1_1.jpg'' ''1.jpg'',
               WriteLabel ''1.txt'' (to_csv example_env rows1),
               CopyImage ''AFW-dataset/1_2.jpg'' ''1.jpg'',
               WriteLabel ''1.txt'' (to_csv example_env rows2)]"
proof -
  from afw_example_labels obtain rows1 where
    1: "afw_image_labels example_env (drop 3 (butlast (map rstrip afw_example_points))) 480 640 = Some rows1"
    by (rule exE)
  from afw_example_labels2 obtain rows2 where
    2: "afw_image_labels example_env (drop 3 (butlast (map rstrip afw_example_points2))) 480 640 = Some rows2"
    by (rule exE)
  have "afw_group example_env afw_two_faces_tree ''1'' =
         Some [CopyImage ''AFW-dataset/1_1.jpg'' ''1.jpg'',
               WriteLabel ''1.txt'' (to_csv example_env rows1),
               CopyImage ''AFW-dataset/1_2.jpg'' ''1.jpg'',
               WriteLabel ''1.txt'' (to_csv example_env rows2)]"
    unfolding afw_group_def two_faces_globs
    by (simp add: py_index_def path_join_def Let_def two_faces_files 1 2)
  with 1 2 show ?thesis by blast
qed

text \<open>
  The claim C6, that only the image of the first face is kept, fails: the base name 1 with
  the faces \<open>1_1.jpg\<close> and \<open>1_2.jpg\<close> has both images copied to \<open>1.jpg\<close>, and what remains
  there is the copy of \<open>1_2.jpg\<close>.
\<close>

theorem afw_first_image_overwritten:
  "glob (afw_listing afw_two_faces_tree) ''1'' ''.jpg'' = [''1_1.jpg'', ''1_2.jpg'']
   \<and> map_option (\<lambda>ws. final_image ws ''1.jpg'') (afw_group example_env afw_two_faces_tree ''1'')
       = Some (Some (CopyImage ''AFW-dataset/1_2.jpg'' ''1.jpg''))
   \<and> map_option copied_images (afw_group example_env afw_two_faces_tree ''1'')
       = Some [''1.jpg'', ''1.jpg'']"
proof -
  from two_faces_group obtain rows1 rows2 where
    g: "afw_group example_env afw_two_faces_tree ''1'' =
         Some [CopyImage ''AFW-dataset/1_1.jpg'' ''1.jpg'',
               WriteLabel ''1.txt'' (to_csv example_env rows1),
               CopyImage ''AFW-dataset/1_2.jpg'' ''1.jpg'',
               WriteLabel ''1.txt'' (to_csv example_env rows2)]"
    by blast
  show ?thesis
    unfolding g by (simp add: two_faces_globs final_image_def)
qed

text \<open>
  C6, amended. When the group of a base name is processed, every image of the group is
  copied, in glob order, to the one output \<^verbatim>\<open>{n}.jpg\<close>, so the image that remains is the last
  of the group, not the first. For every face, the point file at the face's index in the
  glob of point files is read and the label loop run on its lines without the first three
  and the last one, and the label file \<^verbatim>\<open>{n}.txt\<close> is written anew. When the point files
  are globbed in the order of the images, each under the name of its image, and the last
  image has the size of the first (the one the script reads), the label file that remains is
  the frame of the point file of the last image, the image that remains, with that image's
  height and width.
\<close>

theorem afw_group_keeps_last:
  "afw_group E T n = Some ws \<and> glob (afw_listing T) n ''.jpg'' = g # gs \<longrightarrow>
     copied_images ws = replicate (length (g # gs)) (n @ ''.jpg'')
     \<and> final_image ws (n @ ''.jpg'')
         = Some (CopyImage (path_join ''AFW-dataset'' (last (g # gs))) (n @ ''.jpg''))
     \<and> (\<forall>i<length (g # gs). \<exists>pts raw img_h img_w rows.
           py_index (glob (afw_listing T) n ''.pts'') i = Some pts
           \<and> read_lines T (path_join ''AFW-dataset'' pts) = Some raw
           \<and> afw_image_labels E (drop 3 (butlast (map rstrip raw))) img_h img_w = Some rows
           \<and> WriteLabel (n @ ''.txt'') (to_csv E rows) \<in> set ws)
     \<and> (glob (afw_listing T) n ''.pts'' = map (\<lambda>f. fst (splitext f) @ ''.pts'') (g # gs)
          \<and> imread T (path_join ''AFW-dataset'' (last (g # gs)))
              = imread T (path_join ''AFW-dataset'' g)
        \<longrightarrow> (\<exists>raw img_h img_w rows.
              read_lines T (path_join ''AFW-dataset'' (fst (splitext (last (g # gs))) @ ''.pts''))
                = Some raw
              \<and> imread T (path_join ''AFW-dataset'' (last (g # gs))) = Some (img_h, img_w)
              \<and> afw_image_labels E (drop 3 (butlast (map rstrip raw))) img_h img_w = Some rows
              \<and> final_label ws (n @ ''.txt'')
                  = Some (WriteLabel (n @ ''.txt'') (to_csv E rows))))"
proof (intro impI)
  assume a: "afw_group E T n = Some ws \<and> glob (afw_listing T) n ''.jpg'' = g # gs"
  let ?gp = "glob (afw_listing T) n ''.pts''"
  let ?items = "enumerate 0 (g # gs)"
  from a have grp: "afw_group E T n = Some ws"
    and gl: "glob (afw_listing T) n ''.jpg'' = g # gs" by simp_all
  have loop: "afw_faces_loop E T n ?gp None ?items = Some ws"
    using grp unfolding afw_group_def Let_def gl .
  have ne: "?items \<noteq> []" by simp
  have last: "last ?items = (length gs, last (g # gs))"
    using last_enumerate [of "g # gs" 0] by simp
  have dims: "foldl (\<lambda>d (i, img). if i = 0 then imread T (path_join ''AFW-dataset'' img) else d)
      None ?items = imread T (path_join ''AFW-dataset'' g)"
    using foldl_dims_later [of "\<lambda>img. imread T (path_join ''AFW-dataset'' img)" _ 0 gs]
    by simp
  from afw_faces_loop_last [OF loop ne] obtain front pts raw img_h img_w rows where
    l: "ws = front @ [CopyImage (path_join ''AFW-dataset'' (last (g # gs))) (n @ ''.jpg''),
                    WriteLabel (n @ ''.txt'') (to_csv E rows)]"
      "py_index ?gp (length gs) = Some pts"
      "read_lines T (path_join ''AFW-dataset'' pts) = Some raw"
      "imread T (path_join ''AFW-dataset'' g) = Some (img_h, img_w)"
      "afw_image_labels E (drop 3 (butlast (map rstrip raw))) img_h img_w = Some rows"
    unfolding last dims fst_conv snd_conv by blast
  have 1: "copied_images ws = replicate (length (g # gs)) (n @ ''.jpg'')"
    using afw_faces_loop_dests [OF loop] by simp
  have 2: "final_image ws (n @ ''.jpg'')
         = Some (CopyImage (path_join ''AFW-dataset'' (last (g # gs))) (n @ ''.jpg''))"
    unfolding l(1) by (rule final_writes_last(1))
  have 3: "\<forall>i<length (g # gs). \<exists>pts raw img_h img_w rows.
           py_index ?gp i = Some pts
           \<and> read_lines T (path_join ''AFW-dataset'' pts) = Some raw
           \<and> afw_image_labels E (drop 3 (butlast (map rstrip raw))) img_h img_w = Some rows
           \<and> WriteLabel (n @ ''.txt'') (to_csv E rows) \<in> set ws"
  proof (intro allI impI)
    fix i assume "i < length (g # gs)"
    then have "(i, (g # gs) ! i) \<in> set ?items"
      by (simp add: in_set_enumerate_eq del: enumerate_simps)
    from afw_faces_loop_each [OF loop this]
    show "\<exists>pts raw img_h img_w rows.
           py_index ?gp i = Some pts
           \<and> read_lines T (path_join ''AFW-dataset'' pts) = Some raw
           \<and> afw_image_labels E (drop 3 (butlast (map rstrip raw))) img_h img_w = Some rows
           \<and> WriteLabel (n @ ''.txt'') (to_csv E rows) \<in> set ws"
      by blast
  qed
  have 4: "final_label ws (n @ ''.txt'') = Some (WriteLabel (n @ ''.txt'') (to_csv E rows))"
    unfolding l(1) by (rule final_writes_last(2))
  have 5: "\<exists>raw img_h img_w rows.
              read_lines T (path_join ''AFW-dataset'' (fst (splitext (last (g # gs))) @ ''.pts''))
                = Some raw
              \<and> imread T (path_join ''AFW-dataset'' (last (g # gs))) = Some (img_h, img_w)
              \<and> afw_image_labels E (drop 3 (butlast (map rstrip raw))) img_h img_w = Some rows
              \<and> final_label ws (n @ ''.txt'')
                  = Some (WriteLabel (n @ ''.txt'') (to_csv E rows))"
    if al: "?gp = map (\<lambda>f. fst (splitext f) @ ''.pts'') (g # gs)
          \<and> imread T (path_join ''AFW-dataset'' (last (g # gs)))
              = imread T (path_join ''AFW-dataset'' g)"
  proof -
    define xs where "xs = g # gs"
    then have xs: "xs \<noteq> []" "length gs = length xs - 1" by simp_all
    from al l(2) have "py_index (map (\<lambda>f. fst (splitext f) @ ''.pts'') xs) (length xs - 1) = Some pts"
      by (simp only: xs_def [symmetric] xs(2))
    with xs(1) have "pts = fst (splitext (xs ! (length xs - 1))) @ ''.pts''"
      by (simp add: py_index_def)
    with xs(1) have "pts = fst (splitext (last xs)) @ ''.pts''"
      by (simp add: last_conv_nth)
    then have "pts = fst (splitext (last (g # gs))) @ ''.pts''"
      by (simp only: xs_def)
    with l(3-5) 4 al show ?thesis by simp
  qed
  from 1 2 3 5
  show "copied_images ws = replicate (length (g # gs)) (n @ ''.jpg'')
     \<and> final_image ws (n @ ''.jpg'')
         = Some (CopyImage (path_join ''AFW-dataset'' (last (g # gs))) (n @ ''.jpg''))
     \<and> (\<forall>i<length (g # gs). \<exists>pts raw img_h img_w rows.
           py_index ?gp i = Some pts
           \<and> read_lines T (path_join ''AFW-dataset'' pts) = Some raw
           \<and> afw_image_labels E (drop 3 (butlast (map rstrip raw))) img_h img_w = Some rows
           \<and> WriteLabel (n @ ''.txt'') (to_csv E rows) \<in> set ws)
     \<and> (?gp = map (\<lambda>f. fst (splitext f) @ ''.pts'') (g # gs)
          \<and> imread T (path_join ''AFW-dataset'' (last (g # gs)))
              = imread T (path_join ''AFW-dataset'' g)
        \<longrightarrow> (\<exists>raw img_h img_w rows.
              read_lines T (path_join ''AFW-dataset'' (fst (splitext (last (g # gs))) @ ''.pts''))
                = Some raw
              \<and> imread T (path_join ''AFW-dataset'' (last (g # gs))) = Some (img_h, img_w)
              \<and> afw_image_labels E (drop 3 (butlast (map rstrip raw))) img_h img_w = Some rows
              \<and> final_label ws (n @ ''.txt'')
                  = Some (WriteLabel (n @ ''.txt'') (to_csv E rows))))"
    by blast
qed

theorem afw_group_keeps_last_witness:
  "\<exists>ws rows. afw_group example_env afw_two_faces_tree ''1'' = Some ws
     \<and> copied_images ws = [''1.jpg'', ''1.jpg'']
     \<and> final_image ws ''1.jpg'' = Some (CopyImage ''AFW-dataset/1_2.jpg'' ''1.jpg'')
     \<and> read_lines afw_two_faces_tree ''AFW-dataset/1_2.pts'' = Some afw_example_points2
     \<and> imread afw_two_faces_tree ''AFW-dataset/1_2.jpg'' = Some (480, 640)
     \<and> afw_image_labels example_env (drop 3 (butlast (map rstrip afw_example_points2))) 480 640
         = Some rows
     \<and> final_label ws ''1.txt'' = Some (WriteLabel ''1.txt'' (to_csv example_env rows))"
proof -
  from two_faces_group obtain ws where g: "afw_group example_env afw_two_faces_tree ''1'' = Some ws"
    by blast
  have st: "fst (splitext ''1_1.jpg'') = ''1_1''" "fst (splitext ''1_2.jpg'') = ''1_2''"
    by code_simp+
  have al: "glob (afw_listing afw_two_faces_tree) ''1'' ''.pts''
        = map (\<lambda>f. fst (splitext f) @ ''.pts'') [''1_1.jpg'', ''1_2.jpg'']
      \<and> imread afw_two_faces_tree (path_join ''AFW-dataset'' (last [''1_1.jpg'', ''1_2.jpg'']))
          = imread afw_two_faces_tree (path_join ''AFW-dataset'' ''1_1.jpg'')"
    by (simp add: two_faces_globs st path_join_def two_faces_files)
  note inst = afw_group_keeps_last [where E = example_env and T = afw_two_faces_tree
      and n = "''1''" and ws = ws and g = "''1_1.jpg''" and gs = "[''1_2.jpg'']",
      rule_format, OF conjI [OF g two_faces_globs(1)]]
  from inst have 1: "copied_images ws = [''1.jpg'', ''1.jpg'']"
    by (simp add: numeral_2_eq_2)
  from inst have 2: "final_image ws ''1.jpg'' = Some (CopyImage ''AFW-dataset/1_2.jpg'' ''1.jpg'')"
    by (simp add: path_join_def)
  from inst [THEN conjunct2, THEN conjunct2, THEN conjunct2, rule_format, OF al]
  obtain rows where
    "afw_image_labels example_env (drop 3 (butlast (map rstrip afw_example_points2))) 480 640
         = Some rows"
    "final_label ws ''1.txt'' = Some (WriteLabel ''1.txt'' (to_csv example_env rows))"
    by (auto simp: st path_join_def two_faces_files)
  with g 1 2 two_faces_files(2,4) show ?thesis by blast
qed

end
